theory Spec2Isabelle
  imports Main
begin

section \<open>Core types (core/types.py)\<close>

text \<open>
  Values that flow through the runtime as Python's \<open>Any\<close>: the argument values of a
  request, what a handler returns, what a JSON decoder produces. A dictionary is an
  association list with string keys, in insertion order; a finite float is \<open>m * 2^e\<close>.
  \<open>PObject\<close> stands for an object of any other class that is hashable, is neither a
  mapping nor iterable, and that \<open>json.dumps\<close> refuses (an instance of a user class,
  say); a JSON decoder never produces one, a handler may return one.
\<close>

datatype pyval =
    PNone
  | PBool bool
  | PInt int
  | PFloat int int
  | PStr string
  | PList "pyval list"
  | PDict "(string \<times> pyval) list"
  | PObject string

datatype ToolCategory =
    FILE_SYSTEM | APPLICATION | INPUT | UI_AUTOMATION | SYSTEM_CATEGORY | CLIPBOARD
  | NOTIFICATION | DATA_EXTRACTION | SCHEDULING | SECURITY

datatype RiskLevel = LOW | MEDIUM | HIGH | CRITICAL

datatype PermissionTier = OBSERVER | OPERATOR | ADMINISTRATOR | SYSTEM

text \<open>The \<open>.value\<close> of each member of the enum \<open>PermissionTier\<close>: a string.\<close>

fun tier_value :: "PermissionTier \<Rightarrow> string" where
  "tier_value OBSERVER = ''observer''"
| "tier_value OPERATOR = ''operator''"
| "tier_value ADMINISTRATOR = ''administrator''"
| "tier_value SYSTEM = ''system''"

datatype ExecutionStatus =
    PENDING | RUNNING | SUCCESS | FAILED | CANCELLED | TIMEOUT
  | PERMISSION_DENIED | CONFIRMATION_REQUIRED

record ToolParameter =
  p_name :: string
  p_type :: string
  p_description :: string
  p_required :: bool
  p_default :: pyval
  p_enum :: "pyval list option"
  p_examples :: "pyval list option"

record ToolSchema =
  s_name :: string
  s_description :: string
  s_category :: ToolCategory
  s_risk_level :: RiskLevel
  s_parameters :: "ToolParameter list"
  s_returns_description :: string
  s_requires_confirmation :: bool
  s_permission_tier :: PermissionTier
  s_examples :: "pyval list"

text \<open>
  \<open>ToolRequest\<close>. The fields \<open>tool\<close> and \<open>arguments\<close> are declared \<open>str\<close> and
  \<open>Dict[str, Any]\<close>, but nothing enforces the declaration: the extractor stores
  whatever the decoded JSON holds. The record is polymorphic in both fields:
  \<open>request\<close> is a request of the declared types, \<open>parsed_request\<close> one as the
  extractor builds it. The \<open>timestamp\<close> field (wall clock) is left out.
\<close>

record ('n, 'a) ToolRequest =
  request_id :: string
  tool :: 'n
  arguments :: 'a
  conversation_id :: "string option"
  step_number :: int
  requires_confirmation :: bool
  confirmed :: bool

type_synonym args = "(string \<times> pyval) list"
type_synonym request = "(string, args) ToolRequest"
type_synonym parsed_request = "(pyval, pyval) ToolRequest"

text \<open>A request of the declared types, as the run-time value it is.\<close>

definition as_parsed :: "request \<Rightarrow> parsed_request" where
  "as_parsed req =
     \<lparr>request_id = request_id req, tool = PStr (tool req), arguments = PDict (arguments req),
      conversation_id = conversation_id req, step_number = step_number req,
      requires_confirmation = requires_confirmation req, confirmed = confirmed req\<rparr>"

record SideEffect =
  se_type :: pyval
  se_path :: pyval
  se_data :: pyval
  se_reversible :: pyval
  se_rollback_action :: pyval

record ToolResult =
  r_request_id :: string
  status :: ExecutionStatus
  result :: pyval
  error :: "pyval option"
  execution_time_ms :: int
  side_effects :: "SideEffect list"
  warnings :: pyval

text \<open>The dataclass defaults of \<open>ToolResult\<close>.\<close>

definition ToolResult_new :: "string \<Rightarrow> ExecutionStatus \<Rightarrow> ToolResult" where
  "ToolResult_new rid st =
     \<lparr>r_request_id = rid, status = st, result = PNone, error = None,
      execution_time_ms = 0, side_effects = [], warnings = PList []\<rparr>"

section \<open>Python primitives used by the runtime\<close>

text \<open>Comparison of two \<open>str\<close> values with \<open>>\<close> and \<open><\<close>: lexicographic on code points.\<close>

fun str_lt :: "string \<Rightarrow> string \<Rightarrow> bool" where
  "str_lt [] [] = False"
| "str_lt [] (y # ys) = True"
| "str_lt (x # xs) [] = False"
| "str_lt (x # xs) (y # ys) =
     (if (of_char x :: nat) < of_char y then True
      else if x = y then str_lt xs ys else False)"

definition str_gt :: "string \<Rightarrow> string \<Rightarrow> bool" where
  "str_gt a b = str_lt b a"

text \<open>\<open>d[k] = v\<close> on a dictionary: an existing key keeps its place, a new one goes last.\<close>

fun dict_set :: "string \<Rightarrow> 'v \<Rightarrow> (string \<times> 'v) list \<Rightarrow> (string \<times> 'v) list" where
  "dict_set k v [] = [(k, v)]"
| "dict_set k v ((k', v') # kvs) =
     (if k = k' then (k, v) # kvs else (k', v') # dict_set k v kvs)"

text \<open>\<open>d.get(k, dflt)\<close>.\<close>

definition dict_get :: "(string \<times> 'v) list \<Rightarrow> string \<Rightarrow> 'v \<Rightarrow> 'v" where
  "dict_get d k dflt = (case map_of d k of None \<Rightarrow> dflt | Some v \<Rightarrow> v)"

text \<open>\<open>str(n)\<close> of an integer, as an f-string renders it.\<close>

fun digit_char :: "nat \<Rightarrow> char" where
  "digit_char n = char_of (48 + n)"

fun str_nat :: "nat \<Rightarrow> string" where
  "str_nat n = (if n < 10 then [digit_char n] else str_nat (n div 10) @ [digit_char (n mod 10)])"

definition str_int :: "int \<Rightarrow> string" where
  "str_int i = (if i < 0 then CHR ''-'' # str_nat (nat (- i)) else str_nat (nat i))"

text \<open>The slice \<open>xs[start:]\<close>; a negative start counts from the end.\<close>

definition slice_from :: "int \<Rightarrow> 'a list \<Rightarrow> 'a list" where
  "slice_from start xs =
     (if start < 0 then drop (nat (int (length xs) + start)) xs else drop (nat start) xs)"

text \<open>
  Library functions that only render text: \<open>json.dumps(v, indent=2)\<close> on a value it
  accepts, and \<open>str(v)\<close>. They are parameters of the model.
\<close>

record py_lib =
  json_dumps :: "pyval \<Rightarrow> string"
  py_str :: "pyval \<Rightarrow> string"

text \<open>\<open>f"{v}"\<close>: a string as it is, anything else through \<open>str\<close>.\<close>

definition fmt :: "py_lib \<Rightarrow> pyval \<Rightarrow> string" where
  "fmt lib v = (case v of PStr s \<Rightarrow> s | _ \<Rightarrow> py_str lib v)"

text \<open>
  Exceptions that leave a function of the model. A \<open>TypeError\<close> is raised by the
  interpreter; its kind stands for its text. \<open>KeyError\<close> is the subscript
  \<open>self._tools[request.tool]\<close> on a missing key. \<open>HandlerBaseException\<close> is an
  exception outside the class \<open>Exception\<close> (\<open>SystemExit\<close>, \<open>KeyboardInterrupt\<close>)
  that a handler raised and the future hands to the waiting caller.
\<close>

datatype type_error =
    Unhashable
  | NotAContainer
  | BadSubscript
  | NotSerializable

datatype py_exception =
    KeyError string
  | TypeError type_error
  | HandlerBaseException string

text \<open>\<open>sub in s\<close> on two strings.\<close>

fun is_prefix :: "string \<Rightarrow> string \<Rightarrow> bool" where
  "is_prefix [] s = True"
| "is_prefix (c # cs) [] = False"
| "is_prefix (c # cs) (d # ds) = (c = d \<and> is_prefix cs ds)"

fun is_substring :: "string \<Rightarrow> string \<Rightarrow> bool" where
  "is_substring sub [] = (sub = [])"
| "is_substring sub (c # cs) = (is_prefix sub (c # cs) \<or> is_substring sub cs)"

text \<open>
  \<open>name in container\<close> for a string \<open>name\<close>: key membership in a dictionary, element
  membership in a list, the substring test in a string; any other value is not a
  container and the operator raises.
\<close>

fun py_in :: "string \<Rightarrow> pyval \<Rightarrow> py_exception + bool" where
  "py_in name (PDict kvs) = Inr (map_of kvs name \<noteq> None)"
| "py_in name (PList vs) = Inr (PStr name \<in> set vs)"
| "py_in name (PStr s) = Inr (is_substring name s)"
| "py_in name v = Inl (TypeError NotAContainer)"

text \<open>
  \<open>container[name]\<close> for a string \<open>name\<close>, used where \<open>name in container\<close> holds: a
  list or a string takes only integer subscripts.
\<close>

fun py_getitem :: "pyval \<Rightarrow> string \<Rightarrow> py_exception + pyval" where
  "py_getitem (PDict kvs) name =
     (case map_of kvs name of None \<Rightarrow> Inl (KeyError name) | Some v \<Rightarrow> Inr v)"
| "py_getitem v name = Inl (TypeError BadSubscript)"

text \<open>The values \<open>json.dumps\<close> accepts: everything but an object of another class.\<close>

fun serializable :: "pyval \<Rightarrow> bool" where
  "serializable (PList vs) = list_all serializable vs"
| "serializable (PDict kvs) = list_all serializable (map snd kvs)"
| "serializable (PObject c) = False"
| "serializable v = True"

section \<open>The tool server (tools/server.py)\<close>

text \<open>
  What a handler does with the object it is called with, seen from the caller that
  waits on the future, once a worker runs it:
  \<^item> \<open>Returns v\<close>: it returns \<open>v\<close> before the wait expires;
  \<^item> \<open>Raises msg\<close>: it raises, before the wait expires, an exception of class
    \<open>Exception\<close> other than the one below; \<open>msg\<close> is \<open>str(e)\<close>;
  \<^item> \<open>RaisesTimeout msg\<close>: it raises the very exception class that the wait raises
    when it expires (\<open>concurrent.futures.TimeoutError\<close>, which from Python 3.11 on is
    the builtin \<open>TimeoutError\<close>);
  \<^item> \<open>RaisesBase msg\<close>: it raises an exception outside the class \<open>Exception\<close>;
  \<^item> \<open>Blocks\<close>: it is still running when the wait expires, and keeps its worker.
  A handler is declared to take a dictionary; it is called with whatever object the
  request holds as its arguments.
\<close>

datatype handler_outcome =
    Returns pyval
  | Raises string
  | RaisesTimeout string
  | RaisesBase string
  | Blocks

type_synonym ToolHandler = "pyval \<Rightarrow> handler_outcome"

record RegisteredTool =
  schema :: ToolSchema
  handler :: ToolHandler
  enabled :: bool

text \<open>
  The state of a \<open>ToolServer\<close>, with the state of its worker pool
  (\<open>ThreadPoolExecutor(max_workers)\<close>) as far as calls made one after the other can
  see it:
  \<^item> \<open>held\<close>: the number of workers occupied by handlers that outlasted the wait of
    their caller and are still running;
  \<^item> \<open>pending\<close>: the request ids of the handlers submitted while every worker was
    held and not started yet, oldest first;
  \<^item> \<open>invocations\<close>: the request ids of the handlers that a worker has started, in
    the order of starting.
  The pool is taken to accept work: \<open>shutdown\<close> has not been called. Its
  constructor refuses a size that is not positive, so \<open>max_workers\<close> is positive
  in every server that exists. Calls of \<open>execute\<close> that overlap in time are outside
  the model.
\<close>

record ToolServer =
  tools :: "(string \<times> RegisteredTool) list"
  permission_tier :: PermissionTier
  timeout :: int
  max_workers :: nat
  confirmation_callback :: "(request \<Rightarrow> bool) option"
  execution_history :: "ToolResult list"
  invocations :: "string list"
  held :: nat
  pending :: "string list"

definition ToolServer_init :: "PermissionTier \<Rightarrow> int \<Rightarrow> nat \<Rightarrow> ToolServer" where
  "ToolServer_init tier t n =
     \<lparr>tools = [], permission_tier = tier, timeout = t, max_workers = n,
      confirmation_callback = None, execution_history = [], invocations = [], held = 0,
      pending = []\<rparr>"


definition register_tool :: "ToolServer \<Rightarrow> ToolSchema \<Rightarrow> ToolHandler \<Rightarrow> ToolServer" where
  "register_tool srv sch h =
     srv\<lparr>tools := dict_set (s_name sch) \<lparr>schema = sch, handler = h, enabled = True\<rparr> (tools srv)\<rparr>"

fun register_tools :: "ToolServer \<Rightarrow> (ToolSchema \<times> ToolHandler) list \<Rightarrow> ToolServer" where
  "register_tools srv [] = srv"
| "register_tools srv ((sch, h) # ts) = register_tools (register_tool srv sch h) ts"

definition set_confirmation_callback :: "ToolServer \<Rightarrow> (request \<Rightarrow> bool) \<Rightarrow> ToolServer" where
  "set_confirmation_callback srv cb = srv\<lparr>confirmation_callback := Some cb\<rparr>"

definition get_tool_schemas :: "ToolServer \<Rightarrow> ToolSchema list" where
  "get_tool_schemas srv = map (\<lambda>(n, t). schema t) (filter (\<lambda>(n, t). enabled t) (tools srv))"

definition get_tool_schema :: "ToolServer \<Rightarrow> string \<Rightarrow> ToolSchema option" where
  "get_tool_schema srv n = map_option schema (map_of (tools srv) n)"

text \<open>\<open>isinstance(value, type_map[expected_type])\<close>; a \<open>bool\<close> is an \<open>int\<close> in Python.\<close>

fun validate_type :: "pyval \<Rightarrow> string \<Rightarrow> bool" where
  "validate_type v t =
     (if t = ''string'' then (case v of PStr _ \<Rightarrow> True | _ \<Rightarrow> False)
      else if t = ''integer'' then (case v of PInt _ \<Rightarrow> True | PBool _ \<Rightarrow> True | _ \<Rightarrow> False)
      else if t = ''number'' then
        (case v of PInt _ \<Rightarrow> True | PBool _ \<Rightarrow> True | PFloat _ _ \<Rightarrow> True | _ \<Rightarrow> False)
      else if t = ''boolean'' then (case v of PBool _ \<Rightarrow> True | _ \<Rightarrow> False)
      else if t = ''array'' then (case v of PList _ \<Rightarrow> True | _ \<Rightarrow> False)
      else if t = ''object'' then (case v of PDict _ \<Rightarrow> True | _ \<Rightarrow> False)
      else True)"

text \<open>The two loops of \<open>validate_request\<close>; each returns the message of its first failure.\<close>

fun check_required :: "ToolParameter list \<Rightarrow> args \<Rightarrow> string option" where
  "check_required [] a = None"
| "check_required (p # ps) a =
     (if p_required p \<and> map_of a (p_name p) = None \<and> p_default p = PNone
      then Some (''Missing required parameter: '' @ p_name p)
      else check_required ps a)"

fun check_types :: "ToolParameter list \<Rightarrow> args \<Rightarrow> string option" where
  "check_types [] a = None"
| "check_types (p # ps) a =
     (case map_of a (p_name p) of
        None \<Rightarrow> check_types ps a
      | Some v \<Rightarrow>
          if \<not> validate_type v (p_type p)
          then Some (''Invalid type for '' @ p_name p @ '': expected '' @ p_type p)
          else check_types ps a)"

definition validate_request :: "ToolServer \<Rightarrow> request \<Rightarrow> bool \<times> string option" where
  "validate_request srv req =
     (case map_of (tools srv) (tool req) of
        None \<Rightarrow> (False, Some (''Unknown tool: '' @ tool req))
      | Some t \<Rightarrow>
          if \<not> enabled t then (False, Some (''Tool is disabled: '' @ tool req))
          else if str_gt (tier_value (s_permission_tier (schema t)))
                         (tier_value (permission_tier srv))
          then (False, Some (''Insufficient permissions for tool: '' @ tool req))
          else (case check_required (s_parameters (schema t)) (arguments req) of
                  Some e \<Rightarrow> (False, Some e)
                | None \<Rightarrow>
                    (case check_types (s_parameters (schema t)) (arguments req) of
                       Some e \<Rightarrow> (False, Some e)
                     | None \<Rightarrow> (True, None))))"

definition check_confirmation :: "ToolServer \<Rightarrow> request \<Rightarrow> bool" where
  "check_confirmation srv req =
     (case map_of (tools srv) (tool req) of
        None \<Rightarrow> False
      | Some t \<Rightarrow>
          if s_requires_confirmation (schema t) \<and> \<not> confirmed req
          then (case confirmation_callback srv of Some cb \<Rightarrow> cb req | None \<Rightarrow> False)
          else True)"

text \<open>
  \<open>SideEffect(**se)\<close>: \<open>se\<close> must be a mapping whose keys are fields of the dataclass
  and that gives the one field without a default, \<open>type\<close>. \<open>None\<close> stands for the
  \<open>TypeError\<close> the call raises otherwise.
\<close>

definition side_effect_fields :: "string list" where
  "side_effect_fields = [''type'', ''path'', ''data'', ''reversible'', ''rollback_action'']"

fun SideEffect_new :: "pyval \<Rightarrow> SideEffect option" where
  "SideEffect_new (PDict kvs) =
     (if list_all (\<lambda>k. k \<in> set side_effect_fields) (map fst kvs)
      then (case map_of kvs ''type'' of
              None \<Rightarrow> None
            | Some ty \<Rightarrow>
                Some \<lparr>se_type = ty,
                      se_path = dict_get kvs ''path'' PNone,
                      se_data = dict_get kvs ''data'' PNone,
                      se_reversible = dict_get kvs ''reversible'' (PBool True),
                      se_rollback_action = dict_get kvs ''rollback_action'' PNone\<rparr>)
      else None)"
| "SideEffect_new _ = None"

fun all_side_effects :: "pyval list \<Rightarrow> SideEffect list option" where
  "all_side_effects [] = Some []"
| "all_side_effects (v # vs) =
     (case SideEffect_new v of
        None \<Rightarrow> None
      | Some se \<Rightarrow> (case all_side_effects vs of None \<Rightarrow> None | Some ses \<Rightarrow> Some (se # ses)))"

text \<open>
  The loop \<open>for se in result["side_effects"]\<close>: a list is walked; an empty dictionary
  or string gives no iteration; a non-empty one yields strings, on which the
  constructor call raises; anything else is not iterable.
\<close>

fun collect_side_effects :: "pyval \<Rightarrow> SideEffect list option" where
  "collect_side_effects (PList vs) = all_side_effects vs"
| "collect_side_effects (PDict kvs) = (if kvs = [] then Some [] else None)"
| "collect_side_effects (PStr s) = (if s = [] then Some [] else None)"
| "collect_side_effects _ = None"

text \<open>
  The text \<open>str(e)\<close> of a \<open>TypeError\<close> raised by the interpreter while the side
  effects are built; its wording is the interpreter's and is not reproduced.
\<close>

definition type_error_text :: string where
  "type_error_text = ''TypeError''"

text \<open>
  The part of \<open>execute\<close> after the handler has returned a value within the wait:
  the classification of the value. \<open>None\<close> is an exception raised on the way, which
  the enclosing \<open>except Exception\<close> turns into a result.
\<close>

definition classify_result :: "string \<Rightarrow> int \<Rightarrow> pyval \<Rightarrow> ToolResult option" where
  "classify_result rid t v =
     (case v of
        PDict kvs \<Rightarrow>
          (case map_of kvs ''error'' of
             Some e \<Rightarrow> Some ((ToolResult_new rid FAILED)\<lparr>error := Some e, execution_time_ms := t\<rparr>)
           | None \<Rightarrow>
               (case (case map_of kvs ''side_effects'' of
                        None \<Rightarrow> Some []
                      | Some ses \<Rightarrow> collect_side_effects ses) of
                  None \<Rightarrow> None
                | Some ses \<Rightarrow>
                    Some ((ToolResult_new rid SUCCESS)
                           \<lparr>result := dict_get kvs ''result'' v,
                            side_effects := ses,
                            warnings := dict_get kvs ''warnings'' (PList []),
                            execution_time_ms := t\<rparr>)))
      | _ \<Rightarrow> Some ((ToolResult_new rid SUCCESS)\<lparr>result := v, execution_time_ms := t\<rparr>))"

text \<open>
  The results that \<open>execute\<close> builds without a value of the handler. \<open>elapsed\<close> is
  what \<open>int((time.time() - start_time) * 1000)\<close> evaluates to when a result is built;
  the timeout result does not read the clock.
\<close>

definition invalid_result :: "string \<Rightarrow> int \<Rightarrow> string option \<Rightarrow> ToolResult" where
  "invalid_result rid elapsed err =
     (ToolResult_new rid FAILED)\<lparr>error := map_option PStr err, execution_time_ms := elapsed\<rparr>"

definition confirmation_result :: "string \<Rightarrow> string \<Rightarrow> int \<Rightarrow> ToolResult" where
  "confirmation_result rid name elapsed =
     (ToolResult_new rid CONFIRMATION_REQUIRED)
       \<lparr>result := PDict [(''message'',
            PStr (''Action '' @ [CHR 0x27] @ name @ [CHR 0x27] @ '' requires confirmation''))],
        execution_time_ms := elapsed\<rparr>"

definition timeout_result :: "ToolServer \<Rightarrow> string \<Rightarrow> ToolResult" where
  "timeout_result srv rid =
     (ToolResult_new rid TIMEOUT)
       \<lparr>error := Some (PStr (''Tool execution timed out after ''
                     @ str_int (timeout srv) @ ''s'')),
        execution_time_ms := timeout srv * 1000\<rparr>"

text \<open>
  The \<open>try\<close> statement of \<open>execute\<close>: the handler is submitted to the pool with the
  object \<open>a\<close> and the caller waits for it, \<open>timeout\<close> seconds at most. With a worker
  free the handler is started, and what it does decides the result. With every
  worker held the handler is left pending and the wait expires. No branch submits a
  second time. An exception outside the class \<open>Exception\<close> passes both \<open>except\<close>
  clauses and leaves \<open>execute\<close>.
\<close>

definition dispatch ::
  "int \<Rightarrow> ToolServer \<Rightarrow> string \<Rightarrow> RegisteredTool \<Rightarrow> pyval
     \<Rightarrow> (py_exception \<times> ToolServer) + (ToolResult \<times> ToolServer)" where
  "dispatch elapsed srv rid t a =
     (if held srv < max_workers srv
      then (let srv1 = srv\<lparr>invocations := invocations srv @ [rid]\<rparr>
            in case handler t a of
                 Returns v \<Rightarrow>
                   (case classify_result rid elapsed v of
                      Some r \<Rightarrow>
                        Inr (r, srv1\<lparr>execution_history := execution_history srv1 @ [r]\<rparr>)
                    | None \<Rightarrow>
                        Inr ((ToolResult_new rid FAILED)
                               \<lparr>error := Some (PStr type_error_text),
                                execution_time_ms := elapsed\<rparr>, srv1))
               | Raises msg \<Rightarrow>
                   Inr ((ToolResult_new rid FAILED)
                          \<lparr>error := Some (PStr msg), execution_time_ms := elapsed\<rparr>, srv1)
               | RaisesTimeout msg \<Rightarrow> Inr (timeout_result srv rid, srv1)
               | RaisesBase msg \<Rightarrow> Inl (HandlerBaseException msg, srv1)
               | Blocks \<Rightarrow> Inr (timeout_result srv rid, srv1\<lparr>held := held srv1 + 1\<rparr>))
      else Inr (timeout_result srv rid, srv\<lparr>pending := pending srv @ [rid]\<rparr>))"

text \<open>
  \<open>execute\<close> on a request of the declared types. A raised exception comes with the
  state the server is left in.
\<close>

definition execute ::
  "int \<Rightarrow> ToolServer \<Rightarrow> request
     \<Rightarrow> (py_exception \<times> ToolServer) + (ToolResult \<times> ToolServer)" where
  "execute elapsed srv req =
     (case validate_request srv req of
        (valid, err) \<Rightarrow>
          if \<not> valid
          then Inr (invalid_result (request_id req) elapsed err, srv)
          else
            (case map_of (tools srv) (tool req) of
               None \<Rightarrow> Inl (KeyError (tool req), srv)
             | Some t \<Rightarrow>
                 if s_requires_confirmation (schema t) \<and> \<not> confirmed req
                 then Inr (confirmation_result (request_id req) (tool req) elapsed, srv)
                 else dispatch elapsed srv (request_id req) t (PDict (arguments req))))"


subsection \<open>The same methods on a request as the extractor builds it\<close>

text \<open>
  \<open>validate_request\<close> and \<open>execute\<close> on a request whose \<open>tool\<close> and \<open>arguments\<close>
  are any decoded values. The tests are those of the source, in its order; where an
  operator of Python does not apply to the value it meets, the \<open>TypeError\<close> it
  raises leaves the method, since neither method catches it there.
\<close>

fun check_required_any :: "ToolParameter list \<Rightarrow> pyval \<Rightarrow> py_exception + string option" where
  "check_required_any [] a = Inr None"
| "check_required_any (p # ps) a =
     (if p_required p
      then (case py_in (p_name p) a of
              Inl e \<Rightarrow> Inl e
            | Inr present \<Rightarrow>
                if \<not> present \<and> p_default p = PNone
                then Inr (Some (''Missing required parameter: '' @ p_name p))
                else check_required_any ps a)
      else check_required_any ps a)"

fun check_types_any :: "ToolParameter list \<Rightarrow> pyval \<Rightarrow> py_exception + string option" where
  "check_types_any [] a = Inr None"
| "check_types_any (p # ps) a =
     (case py_in (p_name p) a of
        Inl e \<Rightarrow> Inl e
      | Inr present \<Rightarrow>
          if present
          then (case py_getitem a (p_name p) of
                  Inl e \<Rightarrow> Inl e
                | Inr v \<Rightarrow>
                    if \<not> validate_type v (p_type p)
                    then Inr (Some (''Invalid type for '' @ p_name p @ '': expected ''
                                    @ p_type p))
                    else check_types_any ps a)
          else check_types_any ps a)"

text \<open>
  The test \<open>request.tool not in self._tools\<close> hashes the value: a list or a
  dictionary cannot be hashed; any other value that is not a string is no key of the
  catalog.
\<close>

definition validate_request_any ::
  "py_lib \<Rightarrow> ToolServer \<Rightarrow> parsed_request \<Rightarrow> py_exception + (bool \<times> string option)" where
  "validate_request_any lib srv req =
     (case tool req of
        PList vs \<Rightarrow> Inl (TypeError Unhashable)
      | PDict kvs \<Rightarrow> Inl (TypeError Unhashable)
      | PStr name \<Rightarrow>
          (case map_of (tools srv) name of
             None \<Rightarrow> Inr (False, Some (''Unknown tool: '' @ name))
           | Some t \<Rightarrow>
               if \<not> enabled t then Inr (False, Some (''Tool is disabled: '' @ name))
               else if str_gt (tier_value (s_permission_tier (schema t)))
                              (tier_value (permission_tier srv))
               then Inr (False, Some (''Insufficient permissions for tool: '' @ name))
               else (case check_required_any (s_parameters (schema t)) (arguments req) of
                       Inl e \<Rightarrow> Inl e
                     | Inr (Some m) \<Rightarrow> Inr (False, Some m)
                     | Inr None \<Rightarrow>
                         (case check_types_any (s_parameters (schema t)) (arguments req) of
                            Inl e \<Rightarrow> Inl e
                          | Inr (Some m) \<Rightarrow> Inr (False, Some m)
                          | Inr None \<Rightarrow> Inr (True, None))))
      | v \<Rightarrow> Inr (False, Some (''Unknown tool: '' @ py_str lib v)))"

definition execute_any ::
  "py_lib \<Rightarrow> int \<Rightarrow> ToolServer \<Rightarrow> parsed_request
     \<Rightarrow> (py_exception \<times> ToolServer) + (ToolResult \<times> ToolServer)" where
  "execute_any lib elapsed srv req =
     (case validate_request_any lib srv req of
        Inl e \<Rightarrow> Inl (e, srv)
      | Inr (valid, err) \<Rightarrow>
          if \<not> valid
          then Inr (invalid_result (request_id req) elapsed err, srv)
          else
            (case tool req of
               PStr name \<Rightarrow>
                 (case map_of (tools srv) name of
                    None \<Rightarrow> Inl (KeyError name, srv)
                  | Some t \<Rightarrow>
                      if s_requires_confirmation (schema t) \<and> \<not> confirmed req
                      then Inr (confirmation_result (request_id req) name elapsed, srv)
                      else dispatch elapsed srv (request_id req) t (arguments req))
             | v \<Rightarrow> Inl (KeyError (py_str lib v), srv)))"

definition enable_tool :: "ToolServer \<Rightarrow> string \<Rightarrow> ToolServer" where
  "enable_tool srv n =
     (case map_of (tools srv) n of
        None \<Rightarrow> srv
      | Some t \<Rightarrow> srv\<lparr>tools := dict_set n (t\<lparr>enabled := True\<rparr>) (tools srv)\<rparr>)"

definition disable_tool :: "ToolServer \<Rightarrow> string \<Rightarrow> ToolServer" where
  "disable_tool srv n =
     (case map_of (tools srv) n of
        None \<Rightarrow> srv
      | Some t \<Rightarrow> srv\<lparr>tools := dict_set n (t\<lparr>enabled := False\<rparr>) (tools srv)\<rparr>)"

definition set_permission_tier :: "ToolServer \<Rightarrow> PermissionTier \<Rightarrow> ToolServer" where
  "set_permission_tier srv tier = srv\<lparr>permission_tier := tier\<rparr>"

definition get_execution_history :: "ToolServer \<Rightarrow> int \<Rightarrow> ToolResult list" where
  "get_execution_history srv limit = slice_from (- limit) (execution_history srv)"

section \<open>Regular expressions as the source uses them\<close>

text \<open>
  The patterns of the source are sequences of single characters and character classes,
  each taken once, greedily many times (\<open>*\<close>) or lazily many times (\<open>*?\<close>), with at
  most one capturing group. \<open>rx_match\<close> is the backtracking matcher of Python's \<open>re\<close>
  on such a sequence, anchored at the start of the text: a greedy item first tries to
  take one more character, a lazy one first tries to go on with the rest of the
  pattern. It returns the text of the group and the text left after the match.
  \<open>ic\<close> is the flag \<open>re.IGNORECASE\<close>; every use of \<open>.\<close> in the source is under
  \<open>re.DOTALL\<close>, so \<open>AnyChar\<close> takes every character.
\<close>

text \<open>\<open>\s\<close> on a \<open>str\<close>, and the characters \<open>str.strip()\<close> removes.\<close>

definition is_space :: "char \<Rightarrow> bool" where
  "is_space c = (of_char c \<in> set [9, 10, 11, 12, 13, 28, 29, 30, 31, 32, 133, 160 :: nat])"

definition lower_char :: "char \<Rightarrow> char" where
  "lower_char c =
     (let n = (of_char c :: nat) in if 65 \<le> n \<and> n \<le> 90 then char_of (n + 32) else c)"

datatype cls = Lit char | AnyChar | Space | NoneOf string

datatype rx = One cls | Many cls | Few cls | Open | Close

fun cls_ok :: "bool \<Rightarrow> cls \<Rightarrow> char \<Rightarrow> bool" where
  "cls_ok ic (Lit c) x = (if ic then lower_char x = lower_char c else x = c)"
| "cls_ok ic AnyChar x = True"
| "cls_ok ic Space x = is_space x"
| "cls_ok ic (NoneOf cs) x = (x \<notin> set cs)"

fun rx_match ::
  "bool \<Rightarrow> rx list \<Rightarrow> string \<Rightarrow> string \<Rightarrow> string \<Rightarrow> (string \<times> string) option" where
  "rx_match ic [] s st cap = Some (cap, s)"
| "rx_match ic (Open # rs) s st cap = rx_match ic rs s s cap"
| "rx_match ic (Close # rs) s st cap = rx_match ic rs s st (take (length st - length s) st)"
| "rx_match ic (One c # rs) [] st cap = None"
| "rx_match ic (One c # rs) (x # xs) st cap =
     (if cls_ok ic c x then rx_match ic rs xs st cap else None)"
| "rx_match ic (Many c # rs) [] st cap = rx_match ic rs [] st cap"
| "rx_match ic (Many c # rs) (x # xs) st cap =
     (if cls_ok ic c x
      then (case rx_match ic (Many c # rs) xs st cap of
              Some m \<Rightarrow> Some m
            | None \<Rightarrow> rx_match ic rs (x # xs) st cap)
      else rx_match ic rs (x # xs) st cap)"
| "rx_match ic (Few c # rs) [] st cap = rx_match ic rs [] st cap"
| "rx_match ic (Few c # rs) (x # xs) st cap =
     (case rx_match ic rs (x # xs) st cap of
        Some m \<Rightarrow> Some m
      | None \<Rightarrow> if cls_ok ic c x then rx_match ic (Few c # rs) xs st cap else None)"

definition lits :: "string \<Rightarrow> rx list" where
  "lits s = map (\<lambda>c. One (Lit c)) s"

text \<open>
  \<open>re.findall\<close> with one group, \<open>re.search(...).group(1)\<close> and \<open>re.sub\<close>: the
  leftmost match from each position, the scan going on after the end of a match. No
  pattern of the source matches the empty text; were a match empty, the scan would
  move on by one character.
\<close>

fun re_findall :: "bool \<Rightarrow> rx list \<Rightarrow> string \<Rightarrow> string list" where
  "re_findall ic p [] = []"
| "re_findall ic p (x # xs) =
     (case rx_match ic p (x # xs) [] [] of
        None \<Rightarrow> re_findall ic p xs
      | Some (cap, rest) \<Rightarrow>
          if length rest < length (x # xs) then cap # re_findall ic p rest
          else cap # re_findall ic p xs)"

fun re_search :: "bool \<Rightarrow> rx list \<Rightarrow> string \<Rightarrow> string option" where
  "re_search ic p [] = None"
| "re_search ic p (x # xs) =
     (case rx_match ic p (x # xs) [] [] of
        None \<Rightarrow> re_search ic p xs
      | Some (cap, rest) \<Rightarrow> Some cap)"

fun re_sub :: "bool \<Rightarrow> rx list \<Rightarrow> string \<Rightarrow> string \<Rightarrow> string" where
  "re_sub ic p repl [] = []"
| "re_sub ic p repl (x # xs) =
     (case rx_match ic p (x # xs) [] [] of
        None \<Rightarrow> x # re_sub ic p repl xs
      | Some (cap, rest) \<Rightarrow>
          if length rest < length (x # xs) then repl @ re_sub ic p repl rest
          else repl @ x # re_sub ic p repl xs)"

definition py_strip :: "string \<Rightarrow> string" where
  "py_strip s = rev (dropWhile is_space (rev (dropWhile is_space s)))"

definition dq :: char where
  "dq = CHR 0x22"

section \<open>The extractor (llm/client.py, \<open>OllamaClient._parse_tool_call\<close>)\<close>

text \<open>The four entries of \<open>json_patterns\<close>, in the order of the source.\<close>

definition pat_python :: "rx list" where
  "pat_python =
     lits ''<|python_start|>'' @ [Many Space, Open, Few AnyChar, Close, Many Space]
     @ lits ''<|python_end|>''"

definition pat_json_fence :: "rx list" where
  "pat_json_fence =
     lits ''```json'' @ [Many Space, Open, Few AnyChar, Close, Many Space] @ lits ''```''"

definition pat_fence :: "rx list" where
  "pat_fence =
     lits ''```'' @ [Many Space, Open, Few AnyChar, Close, Many Space] @ lits ''```''"

definition pat_raw :: "rx list" where
  "pat_raw =
     [Open, One (Lit CHR ''{''), Many (NoneOf ''{}'')]
     @ lits ([dq] @ ''tool'' @ [dq])
     @ [Many Space, One (Lit CHR '':''), Many Space,
        One (Lit dq), One (NoneOf [dq]), Few (NoneOf [dq]), One (Lit dq),
        Many (NoneOf ''{}''), One (Lit CHR ''}''), Close]"

definition json_patterns :: "rx list list" where
  "json_patterns = [pat_python, pat_json_fence, pat_fence, pat_raw]"

text \<open>The two patterns of the last resort; they are searched without flags.\<close>

definition pat_tool_name :: "rx list" where
  "pat_tool_name =
     lits ([dq] @ ''tool'' @ [dq])
     @ [Many Space, One (Lit CHR '':''), Many Space, One (Lit dq),
        Open, One (NoneOf [dq]), Many (NoneOf [dq]), Close, One (Lit dq)]"

definition pat_arguments :: "rx list" where
  "pat_arguments =
     lits ([dq] @ ''arguments'' @ [dq])
     @ [Many Space, One (Lit CHR '':''), Many Space,
        Open, One (Lit CHR ''{''), One (NoneOf ''}''), Many (NoneOf ''}''),
        One (Lit CHR ''}''), Close]"

text \<open>
  The inner loop over the characters of a match: \<open>n\<close> is \<open>brace_count\<close>, \<open>cur\<close> is
  \<open>current_json\<close>; the result is \<open>json_candidates\<close> in the order of appending.
\<close>

fun split_objects :: "int \<Rightarrow> string \<Rightarrow> string \<Rightarrow> string list" where
  "split_objects n cur [] = []"
| "split_objects n cur (c # cs) =
     (let n1 = (if c = CHR ''{'' then n + 1 else n);
          cur1 = (if n1 > 0 then cur @ [c] else cur)
      in if c = CHR ''}''
         then (if n1 - 1 = 0 \<and> cur1 \<noteq> [] then cur1 # split_objects (n1 - 1) [] cs
               else split_objects (n1 - 1) cur1 cs)
         else split_objects n1 cur1 cs)"

definition json_candidates :: "string \<Rightarrow> string list" where
  "json_candidates m =
     (let cands = split_objects 0 [] m in if cands = [] then [py_strip m] else cands)"

definition starts_with_brace :: "string \<Rightarrow> bool" where
  "starts_with_brace s = (case s of [] \<Rightarrow> False | c # _ \<Rightarrow> c = CHR ''{'')"

text \<open>
  A request as \<open>ToolRequest(tool=..., arguments=...)\<close> builds it: the other fields at
  their defaults, the identifier a fresh UUID, here the parameter \<open>rid\<close>.
\<close>

definition ToolRequest_new :: "string \<Rightarrow> 'n \<Rightarrow> 'a \<Rightarrow> ('n, 'a) ToolRequest" where
  "ToolRequest_new rid t a =
     \<lparr>request_id = rid, tool = t, arguments = a, conversation_id = None, step_number = 0,
      requires_confirmation = False, confirmed = False\<rparr>"

text \<open>
  \<open>json.loads\<close> belongs to Python's library and is a parameter \<open>loads\<close> of the model.
  The source calls it only on a text that starts with an opening brace, possibly after
  blanks, where a successful decoding is a dictionary: \<open>loads s\<close> is that dictionary,
  or \<open>None\<close> for \<open>JSONDecodeError\<close>.
\<close>

type_synonym json_loads = "string \<Rightarrow> (string \<times> pyval) list option"

fun try_candidates :: "json_loads \<Rightarrow> string \<Rightarrow> string list \<Rightarrow> parsed_request option" where
  "try_candidates loads rid [] = None"
| "try_candidates loads rid (js # rest) =
     (if \<not> starts_with_brace (py_strip js) then try_candidates loads rid rest
      else (case loads js of
              None \<Rightarrow> try_candidates loads rid rest
            | Some data \<Rightarrow>
                (case map_of data ''tool'' of
                   Some t \<Rightarrow> Some (ToolRequest_new rid t (dict_get data ''arguments'' (PDict [])))
                 | None \<Rightarrow> try_candidates loads rid rest)))"

fun try_matches :: "json_loads \<Rightarrow> string \<Rightarrow> string list \<Rightarrow> parsed_request option" where
  "try_matches loads rid [] = None"
| "try_matches loads rid (m # ms) =
     (case try_candidates loads rid (json_candidates m) of
        Some r \<Rightarrow> Some r
      | None \<Rightarrow> try_matches loads rid ms)"

fun try_patterns ::
  "json_loads \<Rightarrow> string \<Rightarrow> rx list list \<Rightarrow> string \<Rightarrow> parsed_request option" where
  "try_patterns loads rid [] content = None"
| "try_patterns loads rid (p # ps) content =
     (case try_matches loads rid (re_findall True p content) of
        Some r \<Rightarrow> Some r
      | None \<Rightarrow> try_patterns loads rid ps content)"

definition last_resort :: "json_loads \<Rightarrow> string \<Rightarrow> string \<Rightarrow> parsed_request option" where
  "last_resort loads rid content =
     (case re_search False pat_tool_name content of
        None \<Rightarrow> None
      | Some tool_name \<Rightarrow>
          (let args = (case re_search False pat_arguments content of
                         None \<Rightarrow> []
                       | Some a \<Rightarrow> (case loads a of None \<Rightarrow> [] | Some d \<Rightarrow> d))
           in Some (ToolRequest_new rid (PStr tool_name) (PDict args))))"

definition parse_tool_call :: "json_loads \<Rightarrow> string \<Rightarrow> string \<Rightarrow> parsed_request option" where
  "parse_tool_call loads rid content =
     (case try_patterns loads rid json_patterns content of
        Some r \<Rightarrow> Some r
      | None \<Rightarrow> last_resort loads rid content)"

section \<open>The orchestrator (orchestrator/agent.py)\<close>

text \<open>
  A stored \<open>Message\<close> (without its wall-clock timestamp and metadata) and a message as it
  is sent to the model: the pair of \<open>role\<close> and \<open>content\<close>.
\<close>

record Message =
  m_role :: string
  m_content :: string
  m_tool_calls :: "parsed_request list"
  m_tool_results :: "ToolResult list"

type_synonym chat_message = "string \<times> string"

definition Message_new :: "string \<Rightarrow> string \<Rightarrow> Message" where
  "Message_new r c = \<lparr>m_role = r, m_content = c, m_tool_calls = [], m_tool_results = []\<rparr>"

text \<open>
  The transport to the model is a collaborator: given the number of calls the agent has
  made before and the messages, the HTTP exchange either fails with an exception of
  class \<open>Exception\<close> (the text is \<open>str(e)\<close>) or yields the text of the reply.
\<close>

datatype llm_outcome = ChatError string | ChatReply string

type_synonym llm = "nat \<Rightarrow> chat_message list \<Rightarrow> llm_outcome"

text \<open>\<open>LLMResponse\<close>, without the raw response and the finish reason, which nothing reads.\<close>

record LLMResponse =
  resp_content :: string
  resp_tool_calls :: "parsed_request list"

text \<open>
  What a run depends on and does not compute: the two rendering functions,
  \<open>json.loads\<close>, the identifier that \<open>uuid.uuid4()\<close> gives the request extracted
  from the reply to the call with a given number, the transport, and the elapsed time
  that a call of \<open>execute\<close> reads for a request.
\<close>

record environment =
  env_lib :: py_lib
  env_loads :: json_loads
  env_fresh :: "nat \<Rightarrow> string"
  env_gateway :: llm
  env_clock :: "parsed_request \<Rightarrow> int"

text \<open>
  \<open>self.llm.chat(messages)\<close>, the branch without streaming of \<open>OllamaClient.chat\<close>:
  the reply goes through \<open>_parse_tool_call\<close>, and the request it yields, if any, is
  the one tool call of the response. \<open>Inl\<close> is the exception that \<open>chat\<close> raises again.
\<close>

definition chat :: "environment \<Rightarrow> nat \<Rightarrow> chat_message list \<Rightarrow> string + LLMResponse" where
  "chat env n messages =
     (case env_gateway env n messages of
        ChatError e \<Rightarrow> Inl e
      | ChatReply c \<Rightarrow>
          Inr \<lparr>resp_content = c,
               resp_tool_calls =
                 (case parse_tool_call (env_loads env) (env_fresh env n) c of
                    None \<Rightarrow> []
                  | Some tool_call \<Rightarrow> [tool_call])\<rparr>)"

text \<open>What the \<open>_emit_\<close> methods hand to the observability callbacks and the log.\<close>

datatype event =
    Thinking string
  | ToolCallEvent parsed_request
  | ToolResultEvent ToolResult
  | ResponseEvent string

text \<open>
  The state of an \<open>AgentOrchestrator\<close>. \<open>events\<close> is the trace of emitted events and
  \<open>llm_calls\<close> counts the calls of the model gateway; both are ghost fields. The
  callbacks and the approval collaborator are taken to return.
\<close>

record Agent =
  max_iterations :: int
  confirmation_handler :: "(parsed_request \<Rightarrow> bool) option"
  conversation :: "Message list"
  tool_server :: ToolServer
  events :: "event list"
  llm_calls :: nat

definition handle_confirmation :: "Agent \<Rightarrow> parsed_request \<Rightarrow> bool" where
  "handle_confirmation ag req =
     (case confirmation_handler ag of Some h \<Rightarrow> h req | None \<Rightarrow> False)"

text \<open>
  \<open>_format_tool_result_for_llm\<close>. \<open>json.dumps\<close> raises \<open>TypeError\<close> on a payload it
  cannot serialise, and the method does not catch it.
\<close>

definition format_tool_result_for_llm :: "py_lib \<Rightarrow> ToolResult \<Rightarrow> py_exception + string" where
  "format_tool_result_for_llm lib r =
     (if status r = SUCCESS then
        (if serializable (result r)
         then (let result_str = json_dumps lib (result r);
                   result_str = (if length result_str > 1000
                                 then take 1000 result_str @ ''... (truncated)''
                                 else result_str)
               in Inr (''Tool '' @ [CHR 0x27] @ r_request_id r @ [CHR 0x27]
                       @ '' executed successfully.'' @ [CHR 10] @ ''Result: '' @ result_str))
         else Inl (TypeError NotSerializable))
      else if status r = CONFIRMATION_REQUIRED then
        Inr ''Tool requires confirmation from user. Please ask the user if they want to proceed.''
      else if status r = CANCELLED then Inr ''User cancelled this operation.''
      else Inr (''Tool failed with error: ''
                @ (case error r of None \<Rightarrow> ''None'' | Some v \<Rightarrow> fmt lib v)))"

text \<open>The five substitutions of \<open>_clean_response\<close>, then \<open>strip()\<close>.\<close>

definition clean_python :: "rx list" where
  "clean_python = lits ''<|python_start|>'' @ [Few AnyChar] @ lits ''<|python_end|>''"

definition clean_json_fence :: "rx list" where
  "clean_json_fence =
     lits ''```json'' @ [Many Space, One (Lit CHR ''{''), Many (NoneOf ''`''),
       One (Lit CHR ''}''), Many Space] @ lits ''```''"

definition clean_fence :: "rx list" where
  "clean_fence =
     lits ''```'' @ [Many Space, One (Lit CHR ''{''), Many (NoneOf ''`''),
       One (Lit CHR ''}''), Many Space] @ lits ''```''"

definition clean_tool_object :: "rx list" where
  "clean_tool_object =
     [One (Lit CHR ''{''), Many (NoneOf ''{}'')] @ lits ([dq] @ ''tool'' @ [dq])
     @ [Many (NoneOf ''{}''), One (Lit CHR ''}'')]"

definition clean_newlines :: "rx list" where
  "clean_newlines =
     [One (Lit (CHR 10)), One (Lit (CHR 10)), One (Lit (CHR 10)), Many (Lit (CHR 10))]"

definition clean_response :: "string \<Rightarrow> string" where
  "clean_response c0 =
     (let c1 = re_sub False clean_python [] c0;
          c2 = re_sub False clean_json_fence [] c1;
          c3 = re_sub False clean_fence [] c2;
          c4 = re_sub False clean_tool_object [] c3;
          c5 = re_sub False clean_newlines [CHR 10, CHR 10] c4
      in py_strip c5)"

text \<open>
  The body of the branch \<open>if llm_response.tool_calls\<close> up to and including the
  handling of a required confirmation: it yields the result of the turn, the request
  (its \<open>confirmed\<close> flag is set in place on approval) and the new state. The calls of
  \<open>execute\<close> are not inside any \<open>try\<close>: an exception that leaves \<open>execute\<close> leaves
  \<open>process\<close>.
\<close>

definition cancelled_result :: "string \<Rightarrow> ToolResult" where
  "cancelled_result rid =
     (ToolResult_new rid CANCELLED)\<lparr>error := Some (PStr ''User cancelled the operation'')\<rparr>"

definition run_tool_call ::
  "environment \<Rightarrow> Agent \<Rightarrow> parsed_request
     \<Rightarrow> py_exception + (ToolResult \<times> parsed_request \<times> Agent)" where
  "run_tool_call env ag tr =
     (let ag0 = ag\<lparr>events := events ag @
                   [Thinking (''Using tool: '' @ fmt (env_lib env) (tool tr)), ToolCallEvent tr]\<rparr>
      in case execute_any (env_lib env) (env_clock env tr) (tool_server ag0) tr of
           Inl (e, srv1) \<Rightarrow> Inl e
         | Inr (r, srv1) \<Rightarrow>
             (let ag1 = ag0\<lparr>tool_server := srv1, events := events ag0 @ [ToolResultEvent r]\<rparr>
              in if status r = CONFIRMATION_REQUIRED
                 then (case confirmation_handler ag1 of
                         None \<Rightarrow> Inr (r, tr, ag1)
                       | Some h \<Rightarrow>
                           if h tr
                           then (let tr' = tr\<lparr>confirmed := True\<rparr>
                                 in case execute_any (env_lib env) (env_clock env tr')
                                           (tool_server ag1) tr' of
                                      Inl (e, srv2) \<Rightarrow> Inl e
                                    | Inr (r2, srv2) \<Rightarrow>
                                        Inr (r2, tr',
                                             ag1\<lparr>tool_server := srv2,
                                                 events := events ag1 @ [ToolResultEvent r2]\<rparr>))
                           else Inr (cancelled_result (request_id tr), tr, ag1))
                 else Inr (r, tr, ag1)))"

text \<open>
  The rest of that branch: the two messages appended to the context of the model and
  the two stored in the conversation. \<open>tool_result_message\<close> is the second message of
  the context, which carries the rendered result to the model.
\<close>

definition tool_result_message :: "string \<Rightarrow> chat_message" where
  "tool_result_message tool_result_text =
     (''user'', ''[Tool Result]'' @ [CHR 10] @ tool_result_text @ [CHR 10, CHR 10]
        @ ''Please continue with the task or provide a summary if complete.'')"

definition record_tool_turn ::
  "py_lib \<Rightarrow> string \<Rightarrow> ToolResult \<Rightarrow> parsed_request \<Rightarrow> chat_message list \<Rightarrow> Agent
     \<Rightarrow> py_exception + (chat_message list \<times> Agent)" where
  "record_tool_turn lib c r tr messages ag =
     (case format_tool_result_for_llm lib r of
        Inl e \<Rightarrow> Inl e
      | Inr tool_result_text \<Rightarrow>
          (let messages' = messages @ [(''assistant'', c), tool_result_message tool_result_text];
               tool_message = (Message_new ''assistant'' c)\<lparr>m_tool_calls := [tr]\<rparr>;
               result_message = (Message_new ''tool'' tool_result_text)\<lparr>m_tool_results := [r]\<rparr>
           in Inr (messages',
                   ag\<lparr>conversation := conversation ag @ [tool_message, result_message]\<rparr>)))"

text \<open>
  The \<open>while\<close> loop of \<open>process\<close>, from the value \<open>iterations\<close> has on entry.
  \<open>self.max_iterations\<close> is read at every test of the loop and nothing assigns it, so
  the loop takes its value as \<open>budget\<close>. The loop yields \<open>final_response\<close>, the final
  value of \<open>iterations\<close> and the final state, or the exception that leaves it.
\<close>

function agent_loop ::
  "environment \<Rightarrow> int \<Rightarrow> int \<Rightarrow> chat_message list \<Rightarrow> Agent
     \<Rightarrow> py_exception + (string \<times> int \<times> Agent)" where
  "agent_loop env budget iterations messages ag =
     (if iterations < budget then
        (let iterations' = iterations + 1;
             ag' = ag\<lparr>llm_calls := llm_calls ag + 1\<rparr>
         in case chat env (llm_calls ag) messages of
              Inl e \<Rightarrow>
                Inr (''I encountered an error communicating with the AI model: '' @ e,
                     iterations', ag')
            | Inr resp \<Rightarrow>
                (case resp_tool_calls resp of
                   tool_request # _ \<Rightarrow>
                     (case run_tool_call env ag' tool_request of
                        Inl e \<Rightarrow> Inl e
                      | Inr (r, tr, ag1) \<Rightarrow>
                          (case record_tool_turn (env_lib env) (resp_content resp) r tr
                                  messages ag1 of
                             Inl e \<Rightarrow> Inl e
                           | Inr (messages', ag2) \<Rightarrow>
                               agent_loop env budget iterations' messages' ag2))
                 | [] \<Rightarrow>
                     (let final_response = clean_response (resp_content resp)
                      in Inr (if final_response = [] \<or> length final_response < 5
                              then ''Done!'' else final_response,
                              iterations', ag'))))
      else Inr ([], iterations, ag))"
  by pat_completeness auto
termination
  by (relation "measure (\<lambda>(env, budget, iterations, messages, ag).
                   nat (budget - iterations))") auto

definition process ::
  "environment \<Rightarrow> Agent \<Rightarrow> string \<Rightarrow> py_exception + (string \<times> Agent)" where
  "process env ag user_input =
     (let ag0 = ag\<lparr>conversation := conversation ag @ [Message_new ''user'' user_input]\<rparr>;
          messages = map (\<lambda>m. (m_role m, m_content m)) (slice_from (- 20) (conversation ag0))
      in case agent_loop env (max_iterations ag0) 0 messages ag0 of
           Inl e \<Rightarrow> Inl e
         | Inr (final_response, iterations, ag1) \<Rightarrow>
             if final_response \<noteq> []
             then Inr (final_response,
                       ag1\<lparr>conversation :=
                             conversation ag1 @ [Message_new ''assistant'' final_response],
                           events := events ag1 @ [ResponseEvent final_response]\<rparr>)
             else Inr (final_response, ag1))"

section \<open>Notions used to state the properties of the extractor\<close>

text \<open>
  One pass of the loop over \<open>json_patterns\<close>: what the strategy with pattern \<open>p\<close>
  yields on its own.
\<close>

definition strategy :: "json_loads \<Rightarrow> string \<Rightarrow> string \<Rightarrow> rx list \<Rightarrow> parsed_request option" where
  "strategy loads rid content p = try_matches loads rid (re_findall True p content)"

text \<open>
  A candidate text that passes the three tests of the innermost loop: it starts with an
  opening brace, it decodes, and the decoded object has the key \<open>tool\<close>. The value is
  the pair of that key's value and the decoded object.
\<close>

definition tool_object :: "json_loads \<Rightarrow> string \<Rightarrow> (pyval \<times> (string \<times> pyval) list) option" where
  "tool_object loads js =
     (if starts_with_brace (py_strip js)
      then (case loads js of
              None \<Rightarrow> None
            | Some data \<Rightarrow>
                (case map_of data ''tool'' of None \<Rightarrow> None | Some t \<Rightarrow> Some (t, data)))
      else None)"

fun first_tool_object ::
  "json_loads \<Rightarrow> string list \<Rightarrow> (pyval \<times> (string \<times> pyval) list) option" where
  "first_tool_object loads [] = None"
| "first_tool_object loads (js # rest) =
     (case tool_object loads js of Some found \<Rightarrow> Some found | None \<Rightarrow> first_tool_object loads rest)"

text \<open>
  Every candidate text in the order in which the three nested loops reach it: by
  pattern, then by match, then by position in the match.
\<close>

definition all_candidates :: "string \<Rightarrow> string list" where
  "all_candidates content =
     concat (map (\<lambda>p. concat (map json_candidates (re_findall True p content))) json_patterns)"

text \<open>
  A text that the character loop takes as one object: it starts with an opening brace,
  the depth of braces stays positive before its last character and returns to zero at
  it. \<open>brace_free\<close>: a text without braces, as between two objects.
\<close>

fun balanced_from :: "int \<Rightarrow> string \<Rightarrow> bool" where
  "balanced_from n [] = False"
| "balanced_from n [c] = (c = CHR ''}'' \<and> n = 1)"
| "balanced_from n (c # c' # cs) =
     (let n' = (if c = CHR ''{'' then n + 1 else if c = CHR ''}'' then n - 1 else n)
      in n' > 0 \<and> balanced_from n' (c' # cs))"

definition brace_object :: "string \<Rightarrow> bool" where
  "brace_object s = (case s of [] \<Rightarrow> False | c # cs \<Rightarrow> c = CHR ''{'' \<and> balanced_from 0 s)"

definition brace_free :: "string \<Rightarrow> bool" where
  "brace_free s = list_all (\<lambda>c. c \<noteq> CHR ''{'' \<and> c \<noteq> CHR ''}'') s"

section \<open>Notions used to state the properties of the turn loop\<close>

text \<open>
  What it is for an iteration of the loop to end as a tool turn. The reply \<open>resp\<close>
  proposed the request \<open>tr0\<close>; the body up to the handling of a confirmation yields
  the result \<open>r\<close> of the turn for the request \<open>tr\<close> and leaves the server \<open>srv\<close>;
  \<open>_format_tool_result_for_llm\<close> renders \<open>r\<close> as \<open>rendered\<close>; the reply and
  the rendered result, inside the message \<open>tool_result_message rendered\<close>, are appended to
  the context of the model; the request and the result are stored in the conversation;
  and the loop goes on with its next iteration from there.
\<close>

definition turn_goes_on ::
  "environment \<Rightarrow> int \<Rightarrow> int \<Rightarrow> chat_message list \<Rightarrow> Agent \<Rightarrow> LLMResponse
     \<Rightarrow> parsed_request \<Rightarrow> parsed_request \<Rightarrow> ToolResult \<Rightarrow> ToolServer \<Rightarrow> string \<Rightarrow> bool" where
  "turn_goes_on env budget iterations messages ag resp tr0 tr r srv rendered =
     (\<exists>ag1.
        run_tool_call env (ag\<lparr>llm_calls := llm_calls ag + 1\<rparr>) tr0 = Inr (r, tr, ag1)
        \<and> tool_server ag1 = srv
        \<and> llm_calls ag1 = llm_calls ag + 1
        \<and> conversation ag1 = conversation ag
        \<and> format_tool_result_for_llm (env_lib env) r = Inr rendered
        \<and> record_tool_turn (env_lib env) (resp_content resp) r tr messages ag1
            = Inr (messages @ [(''assistant'', resp_content resp), tool_result_message rendered],
                   ag1\<lparr>conversation := conversation ag
                          @ [(Message_new ''assistant'' (resp_content resp))\<lparr>m_tool_calls := [tr]\<rparr>,
                             (Message_new ''tool'' rendered)\<lparr>m_tool_results := [r]\<rparr>]\<rparr>)
        \<and> agent_loop env budget iterations messages ag
            = agent_loop env budget (iterations + 1)
                (messages @ [(''assistant'', resp_content resp), tool_result_message rendered])
                (ag1\<lparr>conversation := conversation ag
                       @ [(Message_new ''assistant'' (resp_content resp))\<lparr>m_tool_calls := [tr]\<rparr>,
                          (Message_new ''tool'' rendered)\<lparr>m_tool_results := [r]\<rparr>]\<rparr>))"

section \<open>Concrete instances\<close>

text \<open>
  A server with one registered action \<open>echo\<close>, taking one required string parameter;
  its tier, its confirmation flag and its handler vary with the instance.
\<close>

definition echo_schema :: "PermissionTier \<Rightarrow> bool \<Rightarrow> ToolSchema" where
  "echo_schema tier conf =
     \<lparr>s_name = ''echo'', s_description = ''Echo the text'', s_category = SYSTEM_CATEGORY,
      s_risk_level = LOW,
      s_parameters = [\<lparr>p_name = ''text'', p_type = ''string'', p_description = ''The text'',
                       p_required = True, p_default = PNone, p_enum = None,
                       p_examples = None\<rparr>],
      s_returns_description = [], s_requires_confirmation = conf,
      s_permission_tier = tier, s_examples = []\<rparr>"

definition echo_handler :: ToolHandler where
  "echo_handler a =
     (case a of
        PDict kvs \<Rightarrow> Returns (PDict [(''echo'', dict_get kvs ''text'' PNone)])
      | _ \<Rightarrow> Raises ''the arguments are not a dictionary'')"

definition slow_handler :: ToolHandler where
  "slow_handler a = Blocks"

definition echo_request :: "bool \<Rightarrow> request" where
  "echo_request c =
     \<lparr>request_id = ''r1'', tool = ''echo'', arguments = [(''text'', PStr ''hi'')],
      conversation_id = None, step_number = 0, requires_confirmation = False, confirmed = c\<rparr>"

definition echo_tool :: "PermissionTier \<Rightarrow> bool \<Rightarrow> ToolHandler \<Rightarrow> RegisteredTool" where
  "echo_tool tier conf h = \<lparr>schema = echo_schema tier conf, handler = h, enabled = True\<rparr>"

definition echo_server ::
  "PermissionTier \<Rightarrow> PermissionTier \<Rightarrow> bool \<Rightarrow> ToolHandler \<Rightarrow> ToolServer" where
  "echo_server runtime_tier tool_tier conf h =
     register_tool (ToolServer_init runtime_tier 30 4) (echo_schema tool_tier conf) h"

lemmas echo_defs =
  echo_schema_def echo_handler_def slow_handler_def echo_request_def echo_tool_def
  echo_server_def register_tool_def ToolServer_init_def






text \<open>
  Texts of model replies, and the value of \<open>json.loads\<close> on the five object texts
  that occur in them (on every other text of the instances, decoding fails).
\<close>

definition quoted :: "string \<Rightarrow> string" where
  "quoted s = [dq] @ s @ [dq]"

definition note_text :: string where
  "note_text = ''{'' @ quoted ''note'' @ '': 1}''"

definition app_open_text :: string where
  "app_open_text =
     ''{'' @ quoted ''tool'' @ '': '' @ quoted ''app_open'' @ '', '' @ quoted ''arguments''
     @ '': {'' @ quoted ''identifier'' @ '': '' @ quoted ''notepad'' @ ''}}''"

definition screenshot_text :: string where
  "screenshot_text = ''{'' @ quoted ''tool'' @ '': '' @ quoted ''screenshot'' @ ''}''"

definition type_text_text :: string where
  "type_text_text =
     ''{'' @ quoted ''tool'' @ '': '' @ quoted ''type_text'' @ '', '' @ quoted ''arguments''
     @ '': {'' @ quoted ''text'' @ '': '' @ quoted ''}'' @ ''}}''"

definition app_close_text :: string where
  "app_close_text = ''{'' @ quoted ''tool'' @ '': '' @ quoted ''app_close'' @ ''}''"

definition demo_loads :: json_loads where
  "demo_loads s =
     (if s = note_text then Some [(''note'', PInt 1)]
      else if s = app_open_text
      then Some [(''tool'', PStr ''app_open''),
                 (''arguments'', PDict [(''identifier'', PStr ''notepad'')])]
      else if s = screenshot_text then Some [(''tool'', PStr ''screenshot'')]
      else if s = type_text_text
      then Some [(''tool'', PStr ''type_text''), (''arguments'', PDict [(''text'', PStr ''}'')])]
      else if s = app_close_text then Some [(''tool'', PStr ''app_close'')]
      else None)"

definition two_objects_reply :: string where
  "two_objects_reply =
     ''Sure.'' @ [CHR 10] @ ''```json'' @ [CHR 10] @ note_text @ app_open_text @ [CHR 10] @ ''```''"

definition brace_in_string_reply :: string where
  "brace_in_string_reply =
     ''```json'' @ [CHR 10] @ type_text_text @ app_close_text @ [CHR 10] @ ''```''"

definition no_arguments_reply :: string where
  "no_arguments_reply = ''```json'' @ [CHR 10] @ screenshot_text @ [CHR 10] @ ''```''"

definition bare_pair_reply :: string where
  "bare_pair_reply = ''Use '' @ quoted ''tool'' @ '': '' @ quoted ''screenshot'' @ '' now''"

lemmas reply_defs =
  quoted_def note_text_def app_open_text_def screenshot_text_def type_text_text_def
  app_close_text_def demo_loads_def two_objects_reply_def brace_in_string_reply_def
  no_arguments_reply_def bare_pair_reply_def

lemmas pattern_defs =
  json_patterns_def pat_python_def pat_json_fence_def pat_fence_def pat_raw_def
  pat_tool_name_def pat_arguments_def lits_def dq_def is_space_def lower_char_def

text \<open>
  An agent over the \<open>echo\<close> server and replies of the model that call \<open>echo\<close>: one
  with a dictionary of arguments, one with \<open>null\<close> for the arguments; the value of
  \<open>json.loads\<close> on the two object texts; transports that give the first reply at
  every call, the first reply once and then plain text, and the second reply at every
  call.
\<close>

definition echo_agent ::
  "int \<Rightarrow> (parsed_request \<Rightarrow> bool) option \<Rightarrow> ToolServer \<Rightarrow> Agent" where
  "echo_agent budget h srv =
     \<lparr>max_iterations = budget, confirmation_handler = h, conversation = [],
      tool_server = srv, events = [], llm_calls = 0\<rparr>"

definition echo_call_text :: string where
  "echo_call_text =
     ''{'' @ quoted ''tool'' @ '': '' @ quoted ''echo'' @ '', '' @ quoted ''arguments''
     @ '': {'' @ quoted ''text'' @ '': '' @ quoted ''hi'' @ ''}}''"

definition echo_null_text :: string where
  "echo_null_text =
     ''{'' @ quoted ''tool'' @ '': '' @ quoted ''echo'' @ '', '' @ quoted ''arguments''
     @ '': null}''"

definition agent_loads :: json_loads where
  "agent_loads s =
     (if s = echo_call_text
      then Some [(''tool'', PStr ''echo''), (''arguments'', PDict [(''text'', PStr ''hi'')])]
      else if s = echo_null_text
      then Some [(''tool'', PStr ''echo''), (''arguments'', PNone)]
      else None)"

definition echo_call_reply :: string where
  "echo_call_reply = ''```json'' @ [CHR 10] @ echo_call_text @ [CHR 10] @ ''```''"

definition echo_null_reply :: string where
  "echo_null_reply = ''```json'' @ [CHR 10] @ echo_null_text @ [CHR 10] @ ''```''"

definition always_echo :: llm where
  "always_echo n msgs = ChatReply echo_call_reply"

definition echo_once :: llm where
  "echo_once n msgs = (if n = 0 then ChatReply echo_call_reply else ChatReply ''All done.'')"

definition always_null :: llm where
  "always_null n msgs = ChatReply echo_null_reply"

definition plain_lib :: py_lib where
  "plain_lib = \<lparr>json_dumps = (\<lambda>v. ''null''), py_str = (\<lambda>v. ''None'')\<rparr>"

definition demo_env :: "llm \<Rightarrow> environment" where
  "demo_env gateway =
     \<lparr>env_lib = plain_lib, env_loads = agent_loads, env_fresh = (\<lambda>n. ''r'' @ str_nat n),
      env_gateway = gateway, env_clock = (\<lambda>r. 0)\<rparr>"

text \<open>The request that the extractor builds from the first reply to call number 0.\<close>

definition echo_parsed :: "bool \<Rightarrow> parsed_request" where
  "echo_parsed c =
     \<lparr>request_id = ''r0'', tool = PStr ''echo'',
      arguments = PDict [(''text'', PStr ''hi'')],
      conversation_id = None, step_number = 0, requires_confirmation = False, confirmed = c\<rparr>"

lemmas agent_defs =
  echo_agent_def echo_call_text_def echo_null_text_def agent_loads_def echo_call_reply_def
  echo_null_reply_def always_echo_def echo_once_def always_null_def plain_lib_def
  demo_env_def echo_parsed_def

section \<open>Properties of the tool server\<close>

lemma map_of_dict_set: "map_of (dict_set k v d) = (map_of d)(k \<mapsto> v)"
  by (induction d) (auto simp: fun_eq_iff)

lemma validate_ok_lookup:
  "fst (validate_request srv req) \<Longrightarrow> \<exists>t. map_of (tools srv) (tool req) = Some t"
  by (auto simp: validate_request_def split: option.splits)

lemma execute_invalid:
  "\<not> fst (validate_request srv req) \<Longrightarrow>
   execute el srv req =
     Inr (invalid_result (request_id req) el (snd (validate_request srv req)), srv)"
  by (cases "validate_request srv req") (simp add: execute_def)

lemma execute_gated:
  assumes "fst (validate_request srv req)" "map_of (tools srv) (tool req) = Some t"
    "s_requires_confirmation (schema t)" "\<not> confirmed req"
  shows "\<exists>r. execute el srv req = Inr (r, srv) \<and> status r = CONFIRMATION_REQUIRED
           \<and> r_request_id r = request_id req"
  using assms
  by (cases "validate_request srv req")
     (simp add: execute_def confirmation_result_def ToolResult_new_def)


lemma classify_result_status:
  "classify_result rid el v = Some r \<Longrightarrow>
     (status r = SUCCESS \<or> status r = FAILED) \<and> r_request_id r = rid"
  by (auto simp: classify_result_def ToolResult_new_def split: pyval.splits option.splits)

lemma timeout_result_simps [simp]:
  "status (timeout_result srv rid) = TIMEOUT"
  "r_request_id (timeout_result srv rid) = rid"
  "execution_time_ms (timeout_result srv rid) = timeout srv * 1000"
  by (simp_all add: timeout_result_def ToolResult_new_def)


lemma dispatch_result:
  assumes "dispatch el srv rid t a = Inr (r, srv')"
  shows "status r \<noteq> CONFIRMATION_REQUIRED \<and> r_request_id r = rid
         \<and> tools srv' = tools srv \<and> permission_tier srv' = permission_tier srv
         \<and> (invocations srv' = invocations srv \<or> invocations srv' = invocations srv @ [rid])"
  using assms
  by (auto simp: dispatch_def Let_def ToolResult_new_def
      split: if_splits handler_outcome.splits option.splits
      dest!: classify_result_status)

lemma dispatch_raises:
  assumes "dispatch el srv rid t a = Inl (e, srv')"
  shows "held srv < max_workers srv \<and> (\<exists>m. handler t a = RaisesBase m \<and> e = HandlerBaseException m)
         \<and> invocations srv' = invocations srv @ [rid] \<and> pending srv' = pending srv"
  using assms
  by (auto simp: dispatch_def Let_def split: if_splits handler_outcome.splits option.splits)

text \<open>
  On a request of the declared types the methods on decoded values are the methods on
  typed requests.
\<close>

lemma check_required_any_dict: "check_required_any ps (PDict a) = Inr (check_required ps a)"
  by (induction ps) auto

lemma check_types_any_dict: "check_types_any ps (PDict a) = Inr (check_types ps a)"
  by (induction ps) (auto split: option.splits)

lemma validate_request_any_typed:
  "validate_request_any lib srv (as_parsed req) = Inr (validate_request srv req)"
  by (auto simp: validate_request_any_def validate_request_def as_parsed_def
      check_required_any_dict check_types_any_dict split: option.splits)

lemma as_parsed_fields:
  "request_id (as_parsed req) = request_id req"
  "tool (as_parsed req) = PStr (tool req)"
  "arguments (as_parsed req) = PDict (arguments req)"
  "confirmed (as_parsed req) = confirmed req"
  by (simp_all add: as_parsed_def)

lemma execute_any_typed: "execute_any lib el srv (as_parsed req) = execute el srv req"
  by (cases "validate_request srv req")
     (auto simp: execute_any_def execute_def validate_request_any_typed as_parsed_fields
      split: option.splits)

text \<open>The order that the permission check of \<open>validate_request\<close> computes on the tiers.\<close>

lemma tier_check_table:
  "str_gt (tier_value a) (tier_value b) \<longleftrightarrow>
     (a, b) \<in> {(OBSERVER, ADMINISTRATOR), (OPERATOR, OBSERVER), (OPERATOR, ADMINISTRATOR),
               (SYSTEM, OBSERVER), (SYSTEM, OPERATOR), (SYSTEM, ADMINISTRATOR)}"
  by (cases a; cases b; simp add: str_gt_def)

text \<open>
  C1. The claim: an action of tier administrator is rejected with \<open>permission_denied\<close>
  when the runtime's tier is operator. On the code, the check compares the string values
  of the two tiers, and \<open>administrator\<close> is alphabetically below \<open>operator\<close>: a
  request for an administrator-tier action passes validation on an operator-tier server,
  and \<open>execute\<close> runs its handler and returns \<open>success\<close>.
\<close>

theorem administrator_tool_runs_at_operator_tier:
  "validate_request (echo_server OPERATOR ADMINISTRATOR False echo_handler) (echo_request False)
     = (True, None)
   \<and> (case execute 5 (echo_server OPERATOR ADMINISTRATOR False echo_handler) (echo_request False) of
         Inl e \<Rightarrow> False
       | Inr (r, srv') \<Rightarrow> status r = SUCCESS \<and> invocations srv' = [''r1''])"
  by (simp add: execute_def dispatch_def validate_request_def echo_defs str_gt_def
      classify_result_def ToolResult_new_def dict_get_def)

text \<open>
  C2. For a registered action that requires confirmation and a request for it with
  \<open>confirmed\<close> false that passes validation, \<open>execute\<close> returns a result with status
  \<open>confirmation_required\<close> for that request id, and the handler is not invoked: the
  record of invocations is the one before the call.
\<close>

theorem confirmation_gate_holds_request:
  assumes "fst (validate_request srv req)"
    and "map_of (tools srv) (tool req) = Some t"
    and "s_requires_confirmation (schema t)"
    and "\<not> confirmed req"
  shows "case execute el srv req of
           Inl e \<Rightarrow> False
         | Inr (r, srv') \<Rightarrow>
             status r = CONFIRMATION_REQUIRED \<and> r_request_id r = request_id req
             \<and> invocations srv' = invocations srv
             \<and> count_list (invocations srv') (request_id req)
                 = count_list (invocations srv) (request_id req)"
  using execute_gated[OF assms, of el] by auto

theorem confirmation_gate_holds_request_witness:
  "fst (validate_request (echo_server OPERATOR OPERATOR True echo_handler) (echo_request False))
   \<and> map_of (tools (echo_server OPERATOR OPERATOR True echo_handler)) (tool (echo_request False))
       = Some (echo_tool OPERATOR True echo_handler)
   \<and> s_requires_confirmation (schema (echo_tool OPERATOR True echo_handler))
   \<and> \<not> confirmed (echo_request False)
   \<and> (case execute 7 (echo_server OPERATOR OPERATOR True echo_handler) (echo_request False) of
         Inl e \<Rightarrow> False
       | Inr (r, srv') \<Rightarrow>
           status r = CONFIRMATION_REQUIRED \<and> r_request_id r = ''r1''
           \<and> invocations srv' = []
           \<and> count_list (invocations srv') ''r1'' = 0)"
proof -
  let ?srv = "echo_server OPERATOR OPERATOR True echo_handler"
  let ?req = "echo_request False"
  let ?t = "echo_tool OPERATOR True echo_handler"
  have h1: "fst (validate_request ?srv ?req)"
    by (simp add: validate_request_def echo_defs str_gt_def)
  have h2: "map_of (tools ?srv) (tool ?req) = Some ?t"
    by (simp add: echo_defs)
  have h3: "s_requires_confirmation (schema ?t)"
    by (simp add: echo_defs)
  have h4: "\<not> confirmed ?req"
    by (simp add: echo_defs)
  have h5: "invocations ?srv = []" "request_id ?req = ''r1''"
    by (simp_all add: echo_defs)
  from confirmation_gate_holds_request[OF h1 h2 h3 h4, of 7] h1 h2 h3 h4 h5
  show ?thesis by (auto split: sum.splits)
qed




text \<open>
  C5. The claim: on every outcome of \<open>execute\<close>, timeout included, the terminal result
  is appended to the execution history. On the code, only the path on which the handler
  returned a value appends: a request whose handler outlasts the wait gets a result
  with status \<open>timeout\<close>, and the history is still empty; so it is after a request for
  an unknown action, which gets \<open>failed\<close>.
\<close>

theorem timeout_result_not_in_history:
  "(case execute 5 (echo_server OPERATOR OPERATOR False slow_handler) (echo_request False) of
      Inl e \<Rightarrow> False
    | Inr (r, srv') \<Rightarrow>
        status r = TIMEOUT \<and> execution_history srv' = []
        \<and> get_execution_history srv' 100 = [])
   \<and> (case execute 5 (echo_server OPERATOR OPERATOR False echo_handler)
             ((echo_request False)\<lparr>tool := ''nope''\<rparr>) of
        Inl e \<Rightarrow> False
      | Inr (r, srv') \<Rightarrow> status r = FAILED \<and> execution_history srv' = [])"
  by (simp add: execute_def dispatch_def timeout_result_def invalid_result_def
      validate_request_def echo_defs str_gt_def ToolResult_new_def
      get_execution_history_def slice_from_def)



text \<open>
  C9. The claim: registering a name that is already registered fails with a
  \<open>DuplicateName\<close> error and leaves the existing registration unchanged. On the code,
  \<open>register_tool\<close> has no such check: registering \<open>echo\<close> a second time, with the
  confirmation flag set, replaces the schema registered first.
\<close>

theorem register_duplicate_counterexample:
  "get_tool_schema
     (register_tool (echo_server OPERATOR OPERATOR False echo_handler)
        (echo_schema OPERATOR True) slow_handler) ''echo''
   \<noteq> get_tool_schema (echo_server OPERATOR OPERATOR False echo_handler) ''echo''"
  by (simp add: get_tool_schema_def echo_defs)

text \<open>
  C9, amended. For every catalog state and every descriptor, also one whose name is
  already registered, \<open>register_tool\<close> succeeds and binds the name to the new
  descriptor and handler, enabled; a registration that existed under the name is
  replaced, and every other name keeps its registration.
\<close>

theorem register_tool_binds_name:
  "map_of (tools (register_tool srv sch h)) =
     (map_of (tools srv))(s_name sch \<mapsto> \<lparr>schema = sch, handler = h, enabled = True\<rparr>)"
  by (simp add: register_tool_def map_of_dict_set)

section \<open>Properties of the turn loop\<close>

lemma execute_any_confirmation_required:
  assumes "execute_any lib el srv req = Inr (r, srv')" and "status r = CONFIRMATION_REQUIRED"
  shows "srv' = srv \<and> \<not> confirmed req"
proof (cases "validate_request_any lib srv req")
  case (Inl e)
  with assms show ?thesis by (simp add: execute_any_def)
next
  case (Inr ve)
  obtain valid err where ve: "ve = (valid, err)" by (cases ve)
  show ?thesis
  proof (cases valid)
    case False
    with assms Inr ve show ?thesis
      by (auto simp: execute_any_def invalid_result_def ToolResult_new_def)
  next
    case True
    with assms Inr ve show ?thesis
      by (auto simp: execute_any_def split: pyval.splits option.splits if_splits
          dest: dispatch_result)
  qed
qed

lemma run_tool_call_plain:
  assumes "execute_any (env_lib env) (env_clock env tr) (tool_server ag) tr = Inr (r1, srv1)"
    and "status r1 = CONFIRMATION_REQUIRED"
    and "confirmation_handler ag = None"
  shows "\<exists>ag1. run_tool_call env ag tr = Inr (r1, tr, ag1) \<and> tool_server ag1 = tool_server ag
           \<and> llm_calls ag1 = llm_calls ag \<and> conversation ag1 = conversation ag"
  using assms execute_any_confirmation_required[OF assms(1,2)]
  by (simp add: run_tool_call_def Let_def)

lemma run_tool_call_denied:
  assumes "execute_any (env_lib env) (env_clock env tr) (tool_server ag) tr = Inr (r1, srv1)"
    and "status r1 = CONFIRMATION_REQUIRED"
    and "confirmation_handler ag = Some h" and "\<not> h tr"
  shows "\<exists>ag1. run_tool_call env ag tr = Inr (cancelled_result (request_id tr), tr, ag1)
           \<and> tool_server ag1 = tool_server ag
           \<and> llm_calls ag1 = llm_calls ag \<and> conversation ag1 = conversation ag"
  using assms execute_any_confirmation_required[OF assms(1,2)]
  by (simp add: run_tool_call_def Let_def)

lemma run_tool_call_approved:
  assumes "execute_any (env_lib env) (env_clock env tr) (tool_server ag) tr = Inr (r1, srv1)"
    and "status r1 = CONFIRMATION_REQUIRED"
    and "confirmation_handler ag = Some h" and "h tr"
  shows "run_tool_call env ag tr =
           (case execute_any (env_lib env) (env_clock env (tr\<lparr>confirmed := True\<rparr>)) srv1
                   (tr\<lparr>confirmed := True\<rparr>) of
              Inl (e, srv2) \<Rightarrow> Inl e
            | Inr (r2, srv2) \<Rightarrow>
                Inr (r2, tr\<lparr>confirmed := True\<rparr>,
                     ag\<lparr>events := events ag
                          @ [Thinking (''Using tool: '' @ fmt (env_lib env) (tool tr)),
                             ToolCallEvent tr, ToolResultEvent r1, ToolResultEvent r2],
                        tool_server := srv2\<rparr>))"
  using assms
  by (auto simp: run_tool_call_def Let_def split: sum.splits)

declare agent_loop.simps [simp del]

lemma agent_loop_tool_raises:
  assumes "iterations < budget" and "chat env (llm_calls ag) messages = Inr resp"
    and "resp_tool_calls resp = tr0 # rest"
    and "run_tool_call env (ag\<lparr>llm_calls := llm_calls ag + 1\<rparr>) tr0 = Inl e"
  shows "agent_loop env budget iterations messages ag = Inl e"
  using assms by (simp add: agent_loop.simps[of env budget iterations messages ag] Let_def)

lemma agent_loop_render_raises:
  assumes "iterations < budget" and "chat env (llm_calls ag) messages = Inr resp"
    and "resp_tool_calls resp = tr0 # rest"
    and "run_tool_call env (ag\<lparr>llm_calls := llm_calls ag + 1\<rparr>) tr0 = Inr (r, tr, ag1)"
    and "format_tool_result_for_llm (env_lib env) r = Inl e"
  shows "agent_loop env budget iterations messages ag = Inl e"
  using assms
  by (simp add: agent_loop.simps[of env budget iterations messages ag] Let_def
      record_tool_turn_def)

lemma agent_loop_tool_turn:
  assumes "iterations < budget" and "chat env (llm_calls ag) messages = Inr resp"
    and "resp_tool_calls resp = tr0 # rest"
    and "run_tool_call env (ag\<lparr>llm_calls := llm_calls ag + 1\<rparr>) tr0 = Inr (r, tr, ag1)"
    and "tool_server ag1 = srv" and "llm_calls ag1 = llm_calls ag + 1"
    and "conversation ag1 = conversation ag"
    and "format_tool_result_for_llm (env_lib env) r = Inr rendered"
  shows "turn_goes_on env budget iterations messages ag resp tr0 tr r srv rendered"
  using assms
  by (simp add: turn_goes_on_def agent_loop.simps[of env budget iterations messages ag]
      Let_def record_tool_turn_def)

text \<open>
  C8. The claim: for every sequence of model replies \<open>process\<close> returns a string
  within the iteration budget. With replies that call \<open>echo\<close> with a dictionary of
  arguments it does: three calls of the model, three handler invocations, and the
  empty string. With the reply
  \<open>{"tool": "echo", "arguments": null}\<close> inside a \<open>json\<close> fence, the extractor
  builds a request whose \<open>arguments\<close> is \<open>None\<close>; \<open>validate_request\<close> evaluates
  \<open>"text" not in None\<close>, which raises \<open>TypeError\<close>; nothing catches it, and
  \<open>process\<close> raises instead of returning a string.
\<close>

theorem process_raises_on_null_arguments:
  "parse_tool_call agent_loads ''r0'' echo_null_reply
     = Some (ToolRequest_new ''r0'' (PStr ''echo'') PNone)
   \<and> validate_request_any plain_lib (echo_server OPERATOR OPERATOR False echo_handler)
        (ToolRequest_new ''r0'' (PStr ''echo'') PNone)
       = Inl (TypeError NotAContainer)
   \<and> (case process (demo_env always_null)
              (echo_agent 3 None (echo_server OPERATOR OPERATOR False echo_handler)) ''go'' of
         Inl e \<Rightarrow> e = TypeError NotAContainer
       | Inr (resp, ag') \<Rightarrow> False)
   \<and> (case process (demo_env always_echo)
              (echo_agent 3 None (echo_server OPERATOR OPERATOR False echo_handler)) ''go'' of
         Inl e \<Rightarrow> False
       | Inr (resp, ag') \<Rightarrow>
           resp = [] \<and> llm_calls ag' = 3
           \<and> invocations (tool_server ag') = [''r0'', ''r1'', ''r2''])"
proof -
  have a: "parse_tool_call agent_loads ''r0'' echo_null_reply
             = Some (ToolRequest_new ''r0'' (PStr ''echo'') PNone)"
    by code_simp
  have b: "validate_request_any plain_lib (echo_server OPERATOR OPERATOR False echo_handler)
             (ToolRequest_new ''r0'' (PStr ''echo'') PNone)
           = Inl (TypeError NotAContainer)"
    by (simp add: validate_request_any_def ToolRequest_new_def echo_defs str_gt_def)
  have c: "case process (demo_env always_null)
                  (echo_agent 3 None (echo_server OPERATOR OPERATOR False echo_handler)) ''go'' of
             Inl e \<Rightarrow> e = TypeError NotAContainer
           | Inr (resp, ag') \<Rightarrow> False"
    by code_simp
  have d: "case process (demo_env always_echo)
                  (echo_agent 3 None (echo_server OPERATOR OPERATOR False echo_handler)) ''go'' of
             Inl e \<Rightarrow> False
           | Inr (resp, ag') \<Rightarrow>
               resp = [] \<and> llm_calls ag' = 3
               \<and> invocations (tool_server ag') = [''r0'', ''r1'', ''r2'']"
    by code_simp
  from a b c d show ?thesis by simp
qed

text \<open>
  C4. The claim: in the turn loop a \<open>confirmation_required\<close> result always leads to a
  resubmission with \<open>confirmed\<close> true or to a cancelled result. On the code, with no
  approval collaborator configured neither happens: the request is not resubmitted,
  no cancelled result is made, and the \<open>confirmation_required\<close> result itself is
  stored in the conversation as the result of the turn.
\<close>

theorem confirmation_required_kept_without_handler:
  "(case run_tool_call (demo_env echo_once)
          (echo_agent 3 None (echo_server OPERATOR OPERATOR True echo_handler))
          (echo_parsed False) of
      Inl e \<Rightarrow> False
    | Inr (r, tr, ag') \<Rightarrow>
        status r = CONFIRMATION_REQUIRED \<and> \<not> confirmed tr
        \<and> invocations (tool_server ag') = []
        \<and> length (events ag') = 3)
   \<and> (case process (demo_env echo_once)
             (echo_agent 3 None (echo_server OPERATOR OPERATOR True echo_handler)) ''go'' of
        Inl e \<Rightarrow> False
      | Inr (resp, ag') \<Rightarrow>
          map (\<lambda>m. map status (m_tool_results m)) (conversation ag')
            = [[], [], [CONFIRMATION_REQUIRED], []]
          \<and> invocations (tool_server ag') = [])"
proof -
  have a: "case run_tool_call (demo_env echo_once)
                  (echo_agent 3 None (echo_server OPERATOR OPERATOR True echo_handler))
                  (echo_parsed False) of
             Inl e \<Rightarrow> False
           | Inr (r, tr, ag') \<Rightarrow>
               status r = CONFIRMATION_REQUIRED \<and> \<not> confirmed tr
               \<and> invocations (tool_server ag') = []
               \<and> length (events ag') = 3"
    by code_simp
  have b: "case process (demo_env echo_once)
                  (echo_agent 3 None (echo_server OPERATOR OPERATOR True echo_handler)) ''go'' of
             Inl e \<Rightarrow> False
           | Inr (resp, ag') \<Rightarrow>
               map (\<lambda>m. map status (m_tool_results m)) (conversation ag')
                 = [[], [], [CONFIRMATION_REQUIRED], []]
               \<and> invocations (tool_server ag') = []"
    by code_simp
  from a b show ?thesis by simp
qed

text \<open>
  C4, amended. In every run of the turn loop, whenever \<open>execute\<close> returns
  \<open>confirmation_required\<close> (the server is then unchanged) and an approval collaborator
  is configured, the controller asks it. On approval it resubmits the same request with
  \<open>confirmed\<close> true and executes it again: what that second execution returns is never
  \<open>confirmation_required\<close> and is the result of the turn, rendered to the model and
  stored in the conversation, and an exception that leaves the second execution or the
  rendering leaves the loop. On denial the result of the turn is a cancelled result for
  that request, no handler is invoked, and the model is told that the user cancelled
  the operation. When no approval collaborator is configured, no handler is invoked
  either (the policy is deny, as in \<open>_check_confirmation\<close> without a callback), and the
  \<open>confirmation_required\<close> result is itself the result of the turn, stored in the
  conversation and rendered to the model as a request to ask the user. In each of
  these cases without an exception the loop goes on with its next iteration.
\<close>

theorem confirmation_required_resolved_in_turn:
  assumes "iterations < budget"
    and "chat env (llm_calls ag) messages = Inr resp"
    and "resp_tool_calls resp = tr # rest"
    and "execute_any (env_lib env) (env_clock env tr) (tool_server ag) tr = Inr (r1, srv1)"
    and "status r1 = CONFIRMATION_REQUIRED"
  shows "srv1 = tool_server ag
         \<and> (case confirmation_handler ag of
              Some h \<Rightarrow>
                if h tr
                then (case execute_any (env_lib env) (env_clock env (tr\<lparr>confirmed := True\<rparr>))
                             srv1 (tr\<lparr>confirmed := True\<rparr>) of
                        Inl (e, srv2) \<Rightarrow> agent_loop env budget iterations messages ag = Inl e
                      | Inr (r2, srv2) \<Rightarrow>
                          status r2 \<noteq> CONFIRMATION_REQUIRED
                          \<and> (case format_tool_result_for_llm (env_lib env) r2 of
                                Inl e \<Rightarrow> agent_loop env budget iterations messages ag = Inl e
                              | Inr rendered \<Rightarrow>
                                  turn_goes_on env budget iterations messages ag resp
                                    tr (tr\<lparr>confirmed := True\<rparr>) r2 srv2 rendered))
                else status (cancelled_result (request_id tr)) = CANCELLED
                     \<and> r_request_id (cancelled_result (request_id tr)) = request_id tr
                     \<and> format_tool_result_for_llm (env_lib env) (cancelled_result (request_id tr))
                         = Inr ''User cancelled this operation.''
                     \<and> turn_goes_on env budget iterations messages ag resp
                         tr tr (cancelled_result (request_id tr)) (tool_server ag)
                         ''User cancelled this operation.''
            | None \<Rightarrow>
                format_tool_result_for_llm (env_lib env) r1
                  = Inr ''Tool requires confirmation from user. Please ask the user if they want to proceed.''
                \<and> turn_goes_on env budget iterations messages ag resp tr tr r1 (tool_server ag)
                    ''Tool requires confirmation from user. Please ask the user if they want to proceed.'')
         \<and> (as_parsed req = tr \<and> confirmation_callback (tool_server ag) = None
              \<longrightarrow> \<not> check_confirmation (tool_server ag) req)"
proof -
  let ?ag = "ag\<lparr>llm_calls := llm_calls ag + 1\<rparr>"
  let ?tr = "tr\<lparr>confirmed := True\<rparr>"
  note hyp = assms(1-3)
  have e1: "execute_any (env_lib env) (env_clock env tr) (tool_server ?ag) tr = Inr (r1, srv1)"
    using assms(4) by simp
  from execute_any_confirmation_required[OF assms(4,5)]
  have same: "srv1 = tool_server ag" and nc: "\<not> confirmed tr"
    by auto
  have f1: "format_tool_result_for_llm (env_lib env) r1
              = Inr ''Tool requires confirmation from user. Please ask the user if they want to proceed.''"
    using assms(5) by (simp add: format_tool_result_for_llm_def)
  have fc: "format_tool_result_for_llm (env_lib env) (cancelled_result (request_id tr))
              = Inr ''User cancelled this operation.''"
    "status (cancelled_result (request_id tr)) = CANCELLED"
    "r_request_id (cancelled_result (request_id tr)) = request_id tr"
    by (simp_all add: format_tool_result_for_llm_def cancelled_result_def ToolResult_new_def)
  have turn: "case confirmation_handler ag of
              Some h \<Rightarrow>
                if h tr
                then (case execute_any (env_lib env) (env_clock env ?tr) srv1 ?tr of
                        Inl (e, srv2) \<Rightarrow> agent_loop env budget iterations messages ag = Inl e
                      | Inr (r2, srv2) \<Rightarrow>
                          status r2 \<noteq> CONFIRMATION_REQUIRED
                          \<and> (case format_tool_result_for_llm (env_lib env) r2 of
                                Inl e \<Rightarrow> agent_loop env budget iterations messages ag = Inl e
                              | Inr rendered \<Rightarrow>
                                  turn_goes_on env budget iterations messages ag resp
                                    tr ?tr r2 srv2 rendered))
                else status (cancelled_result (request_id tr)) = CANCELLED
                     \<and> r_request_id (cancelled_result (request_id tr)) = request_id tr
                     \<and> format_tool_result_for_llm (env_lib env) (cancelled_result (request_id tr))
                         = Inr ''User cancelled this operation.''
                     \<and> turn_goes_on env budget iterations messages ag resp
                         tr tr (cancelled_result (request_id tr)) (tool_server ag)
                         ''User cancelled this operation.''
            | None \<Rightarrow>
                format_tool_result_for_llm (env_lib env) r1
                  = Inr ''Tool requires confirmation from user. Please ask the user if they want to proceed.''
                \<and> turn_goes_on env budget iterations messages ag resp tr tr r1 (tool_server ag)
                    ''Tool requires confirmation from user. Please ask the user if they want to proceed.''"
  proof (cases "confirmation_handler ag")
    case None
    then have "confirmation_handler ?ag = None" by simp
    from run_tool_call_plain[OF e1 assms(5) this]
    obtain ag1 where "run_tool_call env ?ag tr = Inr (r1, tr, ag1)"
      "tool_server ag1 = tool_server ag" "llm_calls ag1 = llm_calls ag + 1"
      "conversation ag1 = conversation ag"
      by auto
    from agent_loop_tool_turn[OF hyp this f1] f1 None show ?thesis by simp
  next
    case (Some h)
    then have h: "confirmation_handler ?ag = Some h" by simp
    show ?thesis
    proof (cases "h tr")
      case False
      from run_tool_call_denied[OF e1 assms(5) h False]
      obtain ag1 where "run_tool_call env ?ag tr = Inr (cancelled_result (request_id tr), tr, ag1)"
        "tool_server ag1 = tool_server ag" "llm_calls ag1 = llm_calls ag + 1"
        "conversation ag1 = conversation ag"
        by auto
      from agent_loop_tool_turn[OF hyp this fc(1)] fc Some False show ?thesis by simp
    next
      case True
      note run = run_tool_call_approved[OF e1 assms(5) h True]
      show ?thesis
      proof (cases "execute_any (env_lib env) (env_clock env ?tr) srv1 ?tr")
        case (Inl x)
        obtain e srv2 where x: "x = (e, srv2)" by (cases x)
        from run Inl x have "run_tool_call env ?ag tr = Inl e" by simp
        from agent_loop_tool_raises[OF hyp this] Inl x Some True show ?thesis by simp
      next
        case (Inr y)
        obtain r2 srv2 where y: "y = (r2, srv2)" by (cases y)
        have r2: "status r2 \<noteq> CONFIRMATION_REQUIRED"
          using execute_any_confirmation_required[of "env_lib env" "env_clock env ?tr" srv1 ?tr r2 srv2]
            Inr y by auto
        let ?ag1 = "?ag\<lparr>events := events ?ag
                          @ [Thinking (''Using tool: '' @ fmt (env_lib env) (tool tr)),
                             ToolCallEvent tr, ToolResultEvent r1, ToolResultEvent r2],
                        tool_server := srv2\<rparr>"
        from run Inr y have rt: "run_tool_call env ?ag tr = Inr (r2, ?tr, ?ag1)" by simp
        have fields: "tool_server ?ag1 = srv2" "llm_calls ?ag1 = llm_calls ag + 1"
          "conversation ?ag1 = conversation ag"
          by simp_all
        show ?thesis
        proof (cases "format_tool_result_for_llm (env_lib env) r2")
          case (Inl e)
          from agent_loop_render_raises[OF hyp rt Inl] Inl Inr y r2 Some True
          show ?thesis by simp
        next
          case (Inr rendered)
          from agent_loop_tool_turn[OF hyp rt fields Inr] Inr \<open>execute_any (env_lib env) (env_clock env ?tr) srv1 ?tr = Inr y\<close> y r2 Some True
          show ?thesis by simp
        qed
      qed
    qed
  qed
  have deny: "as_parsed req = tr \<and> confirmation_callback (tool_server ag) = None
                \<longrightarrow> \<not> check_confirmation (tool_server ag) req"
  proof (intro impI, elim conjE)
    assume p: "as_parsed req = tr" and cb: "confirmation_callback (tool_server ag) = None"
    from assms(4) p have "execute (env_clock env tr) (tool_server ag) req = Inr (r1, srv1)"
      using execute_any_typed[of "env_lib env" "env_clock env tr" "tool_server ag" req] by simp
    with assms(5) cb show "\<not> check_confirmation (tool_server ag) req"
      by (cases "validate_request (tool_server ag) req")
         (auto simp: execute_def check_confirmation_def invalid_result_def ToolResult_new_def
          split: if_splits option.splits dest: dispatch_result)
  qed
  from same turn deny show ?thesis by blast
qed

theorem confirmation_required_resolved_in_turn_witness:
  "(0::int) < 3
   \<and> chat (demo_env echo_once) 0 [(''user'', ''go'')]
       = Inr \<lparr>resp_content = echo_call_reply, resp_tool_calls = [echo_parsed False]\<rparr>
   \<and> (case execute_any plain_lib 0 (echo_server OPERATOR OPERATOR True echo_handler)
             (echo_parsed False) of
         Inl e \<Rightarrow> False
       | Inr (r1, srv1) \<Rightarrow> status r1 = CONFIRMATION_REQUIRED)
   \<and> (case agent_loop (demo_env echo_once) 3 0 [(''user'', ''go'')]
             (echo_agent 3 None (echo_server OPERATOR OPERATOR True echo_handler)) of
         Inl e \<Rightarrow> False
       | Inr (resp, n, ag') \<Rightarrow>
           resp = ''All done.'' \<and> n = 2 \<and> invocations (tool_server ag') = []
           \<and> map (\<lambda>m. map status (m_tool_results m)) (conversation ag')
               = [[], [CONFIRMATION_REQUIRED]]
           \<and> map m_content (conversation ag')
               = [echo_call_reply,
                  ''Tool requires confirmation from user. Please ask the user if they want to proceed.''])
   \<and> (case agent_loop (demo_env echo_once) 3 0 [(''user'', ''go'')]
             (echo_agent 3 (Some (\<lambda>r. True))
                (echo_server OPERATOR OPERATOR True echo_handler)) of
         Inl e \<Rightarrow> False
       | Inr (resp, n, ag') \<Rightarrow>
           resp = ''All done.'' \<and> n = 2 \<and> invocations (tool_server ag') = [''r0'']
           \<and> map (\<lambda>m. map status (m_tool_results m)) (conversation ag') = [[], [SUCCESS]]
           \<and> map (\<lambda>m. map confirmed (m_tool_calls m)) (conversation ag') = [[True], []])
   \<and> (case agent_loop (demo_env echo_once) 3 0 [(''user'', ''go'')]
             (echo_agent 3 (Some (\<lambda>r. False))
                (echo_server OPERATOR OPERATOR True echo_handler)) of
         Inl e \<Rightarrow> False
       | Inr (resp, n, ag') \<Rightarrow>
           resp = ''All done.'' \<and> n = 2 \<and> invocations (tool_server ag') = []
           \<and> map (\<lambda>m. map status (m_tool_results m)) (conversation ag') = [[], [CANCELLED]]
           \<and> map m_content (conversation ag')
               = [echo_call_reply, ''User cancelled this operation.''])
   \<and> \<not> check_confirmation (echo_server OPERATOR OPERATOR True echo_handler)
         ((echo_request False)\<lparr>request_id := ''r0''\<rparr>)"
proof -
  let ?env = "demo_env echo_once"
  let ?msgs = "[(''user'', ''go'')]"
  let ?srv = "echo_server OPERATOR OPERATOR True echo_handler"
  let ?resp = "\<lparr>resp_content = echo_call_reply, resp_tool_calls = [echo_parsed False]\<rparr>"
  let ?tr = "echo_parsed False"
  let ?none = "echo_agent 3 None ?srv"
  let ?yes = "echo_agent 3 (Some (\<lambda>r. True)) ?srv"
  let ?no = "echo_agent 3 (Some (\<lambda>r. False)) ?srv"
  let ?r1 = "confirmation_result ''r0'' ''echo'' 0"
  let ?r2 = "(ToolResult_new ''r0'' SUCCESS)
               \<lparr>result := PDict [(''echo'', PStr ''hi'')], side_effects := [],
                warnings := PList [], execution_time_ms := 0\<rparr>"
  let ?srv2 = "?srv\<lparr>invocations := [''r0''], execution_history := [?r2]\<rparr>"
  have p0: "parse_tool_call agent_loads (''r'' @ str_nat 0) echo_call_reply = Some ?tr"
    by code_simp
  have p1: "parse_tool_call agent_loads (''r'' @ str_nat 1) ''All done.'' = None"
    by code_simp
  have cl: "clean_response ''All done.'' = ''All done.''"
    by code_simp
  have lt: "(0::int) < 3" by simp
  have ch: "chat ?env 0 ?msgs = Inr ?resp"
    using p0 by (simp add: chat_def demo_env_def echo_once_def)
  have e1: "execute_any plain_lib 0 ?srv ?tr = Inr (?r1, ?srv)"
    by (simp add: execute_any_def validate_request_any_def echo_parsed_def echo_defs str_gt_def)
  have st: "status ?r1 = CONFIRMATION_REQUIRED"
    by (simp add: confirmation_result_def ToolResult_new_def)
  have e2: "execute_any plain_lib 0 ?srv (?tr\<lparr>confirmed := True\<rparr>) = Inr (?r2, ?srv2)"
    by (simp add: execute_any_def validate_request_any_def dispatch_def classify_result_def
        echo_parsed_def echo_defs str_gt_def dict_get_def ToolResult_new_def)
  have f2: "format_tool_result_for_llm plain_lib ?r2
              = Inr (''Tool '' @ [CHR 0x27] @ ''r0'' @ [CHR 0x27] @ '' executed successfully.''
                     @ [CHR 10] @ ''Result: null'')"
    by (simp add: format_tool_result_for_llm_def ToolResult_new_def plain_lib_def Let_def)
  have env: "env_lib ?env = plain_lib" "env_clock ?env = (\<lambda>r. 0)"
    by (simp_all add: demo_env_def)
  have last: "agent_loop ?env 3 1 m ag2 = Inr (''All done.'', 2, ag2\<lparr>llm_calls := 2\<rparr>)"
    if "llm_calls ag2 = 1" for m ag2
    apply (subst agent_loop.simps)
    using that p1 cl
    apply (simp add: chat_def demo_env_def echo_once_def Let_def)
    done
  have finish:
    "case agent_loop ?env 3 0 ?msgs ag of
       Inl e \<Rightarrow> False
     | Inr (resp, n, ag') \<Rightarrow>
         resp = ''All done.'' \<and> n = 2 \<and> tool_server ag' = srv
         \<and> map m_tool_results (conversation ag') = [[], [r]]
         \<and> map m_tool_calls (conversation ag') = [[tr], []]
         \<and> map m_content (conversation ag') = [echo_call_reply, rendered]"
    if "llm_calls ag = 0" "conversation ag = []"
      "turn_goes_on ?env 3 0 ?msgs ag ?resp ?tr tr r srv rendered"
    for ag tr r srv rendered
  proof -
    from that(3) obtain ag1 where
      a: "tool_server ag1 = srv" "llm_calls ag1 = llm_calls ag + 1"
      and l: "agent_loop ?env 3 0 ?msgs ag
                = agent_loop ?env 3 (0 + 1)
                    (?msgs @ [(''assistant'', resp_content ?resp), tool_result_message rendered])
                    (ag1\<lparr>conversation := conversation ag
                           @ [(Message_new ''assistant'' (resp_content ?resp))\<lparr>m_tool_calls := [tr]\<rparr>,
                              (Message_new ''tool'' rendered)\<lparr>m_tool_results := [r]\<rparr>]\<rparr>)"
      unfolding turn_goes_on_def by blast
    show ?thesis
      unfolding l using a that(1,2) by (simp add: last Message_new_def)
  qed
  have a0: "llm_calls ?none = 0" "conversation ?none = []" "tool_server ?none = ?srv"
    "confirmation_handler ?none = None"
    "llm_calls ?yes = 0" "conversation ?yes = []" "tool_server ?yes = ?srv"
    "confirmation_handler ?yes = Some (\<lambda>r. True)"
    "llm_calls ?no = 0" "conversation ?no = []" "tool_server ?no = ?srv"
    "confirmation_handler ?no = Some (\<lambda>r. False)"
    by (simp_all add: echo_agent_def)
  have i: "invocations ?srv = []" "invocations ?srv2 = [''r0'']"
    "request_id ?tr = ''r0''" "confirmed (?tr\<lparr>confirmed := True\<rparr>)"
    by (simp_all add: echo_defs echo_parsed_def)
  have ap: "as_parsed ((echo_request False)\<lparr>request_id := ''r0''\<rparr>) = ?tr"
    by (simp add: as_parsed_def echo_request_def echo_parsed_def)
  have cb: "confirmation_callback ?srv = None"
    by (simp add: echo_defs)
  have hn: "chat ?env (llm_calls ?none) ?msgs = Inr ?resp"
    "execute_any (env_lib ?env) (env_clock ?env ?tr) (tool_server ?none) ?tr = Inr (?r1, ?srv)"
    using ch e1 by (simp_all add: a0 env)
  have hy: "chat ?env (llm_calls ?yes) ?msgs = Inr ?resp"
    "execute_any (env_lib ?env) (env_clock ?env ?tr) (tool_server ?yes) ?tr = Inr (?r1, ?srv)"
    using ch e1 by (simp_all add: a0 env)
  have hd: "chat ?env (llm_calls ?no) ?msgs = Inr ?resp"
    "execute_any (env_lib ?env) (env_clock ?env ?tr) (tool_server ?no) ?tr = Inr (?r1, ?srv)"
    using ch e1 by (simp_all add: a0 env)
  have rs: "resp_tool_calls ?resp = ?tr # []" by simp
  from confirmation_required_resolved_in_turn
         [where env = ?env and ag = ?none and tr = ?tr and resp = ?resp and rest = "[]"
            and req = "(echo_request False)\<lparr>request_id := ''r0''\<rparr>",
          OF lt hn(1) rs hn(2) st]
  have tn: "turn_goes_on ?env 3 0 ?msgs ?none ?resp ?tr ?tr ?r1 ?srv
              ''Tool requires confirmation from user. Please ask the user if they want to proceed.''"
    and dn: "\<not> check_confirmation ?srv ((echo_request False)\<lparr>request_id := ''r0''\<rparr>)"
    using ap cb by (simp_all add: a0)
  from confirmation_required_resolved_in_turn
         [where env = ?env and ag = ?yes and tr = ?tr and resp = ?resp and rest = "[]"
            and req = "(echo_request False)\<lparr>request_id := ''r0''\<rparr>",
          OF lt hy(1) rs hy(2) st]
  have ty: "turn_goes_on ?env 3 0 ?msgs ?yes ?resp ?tr (?tr\<lparr>confirmed := True\<rparr>) ?r2 ?srv2
              (''Tool '' @ [CHR 0x27] @ ''r0'' @ [CHR 0x27] @ '' executed successfully.''
                     @ [CHR 10] @ ''Result: null'')"
    using e2 f2 by (simp add: a0 env)
  from confirmation_required_resolved_in_turn
         [where env = ?env and ag = ?no and tr = ?tr and resp = ?resp and rest = "[]"
            and req = "(echo_request False)\<lparr>request_id := ''r0''\<rparr>",
          OF lt hd(1) rs hd(2) st]
  have td: "turn_goes_on ?env 3 0 ?msgs ?no ?resp ?tr ?tr (cancelled_result ''r0'') ?srv
              ''User cancelled this operation.''"
    by (simp add: a0 i)
  have wn: "case agent_loop ?env 3 0 ?msgs ?none of
         Inl e \<Rightarrow> False
       | Inr (resp, n, ag') \<Rightarrow>
           resp = ''All done.'' \<and> n = 2 \<and> invocations (tool_server ag') = []
           \<and> map (\<lambda>m. map status (m_tool_results m)) (conversation ag')
               = [[], [CONFIRMATION_REQUIRED]]
           \<and> map m_content (conversation ag')
               = [echo_call_reply,
                  ''Tool requires confirmation from user. Please ask the user if they want to proceed.'']"
    using finish[OF a0(1,2) tn] i st
    by (auto split: sum.splits simp: map_eq_Cons_conv)
  have wy: "case agent_loop ?env 3 0 ?msgs ?yes of
         Inl e \<Rightarrow> False
       | Inr (resp, n, ag') \<Rightarrow>
           resp = ''All done.'' \<and> n = 2 \<and> invocations (tool_server ag') = [''r0'']
           \<and> map (\<lambda>m. map status (m_tool_results m)) (conversation ag') = [[], [SUCCESS]]
           \<and> map (\<lambda>m. map confirmed (m_tool_calls m)) (conversation ag') = [[True], []]"
    using finish[OF a0(5,6) ty] i
    by (auto split: sum.splits simp: map_eq_Cons_conv ToolResult_new_def)
  have wd: "case agent_loop ?env 3 0 ?msgs ?no of
         Inl e \<Rightarrow> False
       | Inr (resp, n, ag') \<Rightarrow>
           resp = ''All done.'' \<and> n = 2 \<and> invocations (tool_server ag') = []
           \<and> map (\<lambda>m. map status (m_tool_results m)) (conversation ag') = [[], [CANCELLED]]
           \<and> map m_content (conversation ag')
               = [echo_call_reply, ''User cancelled this operation.'']"
    using finish[OF a0(9,10) td] i
    by (auto split: sum.splits simp: map_eq_Cons_conv cancelled_result_def ToolResult_new_def)
  have ex: "case execute_any plain_lib 0 ?srv ?tr of
         Inl e \<Rightarrow> False
       | Inr (r1, srv1) \<Rightarrow> status r1 = CONFIRMATION_REQUIRED"
    using e1 st by simp
  from lt ch ex wn wy wd dn show ?thesis by blast
qed

section \<open>Properties of the extractor\<close>

lemma try_candidates_append:
  "try_candidates loads rid (xs @ ys) =
     (case try_candidates loads rid xs of Some r \<Rightarrow> Some r | None \<Rightarrow> try_candidates loads rid ys)"
  by (induction xs) (auto split: option.splits)

lemma try_candidates_first_tool_object:
  "try_candidates loads rid cs =
     (case first_tool_object loads cs of
        None \<Rightarrow> None
      | Some (t, data) \<Rightarrow> Some (ToolRequest_new rid t (dict_get data ''arguments'' (PDict []))))"
  by (induction cs) (auto simp: tool_object_def split: option.splits)

lemma try_matches_concat:
  "try_matches loads rid ms = try_candidates loads rid (concat (map json_candidates ms))"
  by (induction ms) (auto simp: try_candidates_append split: option.splits)

lemma try_patterns_concat:
  "try_patterns loads rid ps content =
     try_candidates loads rid
       (concat (map (\<lambda>p. concat (map json_candidates (re_findall True p content))) ps))"
  by (induction ps) (auto simp: try_candidates_append try_matches_concat split: option.splits)

lemma try_patterns_all_candidates:
  "try_patterns loads rid json_patterns content =
     try_candidates loads rid (all_candidates content)"
  by (simp add: try_patterns_concat all_candidates_def)

text \<open>The loop over the patterns returns what the first successful strategy yields.\<close>

lemma try_patterns_first_strategy:
  assumes "i < length ps"
    and "\<forall>j<i. strategy loads rid content (ps ! j) = None"
    and "strategy loads rid content (ps ! i) = Some r"
  shows "try_patterns loads rid ps content = Some r"
  using assms
proof (induction ps arbitrary: i)
  case Nil
  then show ?case by simp
next
  case (Cons p ps)
  show ?case
  proof (cases i)
    case 0
    with Cons.prems show ?thesis by (simp add: strategy_def)
  next
    case (Suc k)
    from Cons.prems(2) Suc have p: "strategy loads rid content p = None"
      by (metis nth_Cons_0 zero_less_Suc)
    have "\<forall>j<k. strategy loads rid content (ps ! j) = None"
      using Cons.prems(2) Suc by (metis Suc_less_eq nth_Cons_Suc)
    moreover have "k < length ps" "strategy loads rid content (ps ! k) = Some r"
      using Cons.prems(1,3) Suc by simp_all
    ultimately have "try_patterns loads rid ps content = Some r"
      using Cons.IH by blast
    with p show ?thesis by (simp add: strategy_def)
  qed
qed

text \<open>The character loop on an object followed by more text, and on text without braces.\<close>

lemma split_objects_balanced:
  assumes "balanced_from n s"
    and "n > 0 \<or> (\<exists>cs. s = CHR ''{'' # cs)"
  shows "split_objects n cur (s @ rest) = (cur @ s) # split_objects 0 [] rest"
  using assms
proof (induction n s arbitrary: cur rule: balanced_from.induct)
  case (1 n)
  then show ?case by simp
next
  case (2 n c)
  then show ?case by simp
next
  case (3 n c c' cs)
  let ?n' = "if c = CHR ''{'' then n + 1 else if c = CHR ''}'' then n - 1 else n"
  from "3.prems"(1) have pos: "?n' > 0" and bal: "balanced_from ?n' (c' # cs)"
    by (simp_all add: Let_def)
  have ih: "split_objects ?n' (cur @ [c]) ((c' # cs) @ rest)
              = ((cur @ [c]) @ c' # cs) # split_objects 0 [] rest"
    using "3.IH"[OF refl bal, of "cur @ [c]"] pos by blast
  have step:
    "split_objects n cur ((c # c' # cs) @ rest) =
       (let n1 = (if c = CHR ''{'' then n + 1 else n);
            cur1 = (if n1 > 0 then cur @ [c] else cur)
        in if c = CHR ''}''
           then (if n1 - 1 = 0 \<and> cur1 \<noteq> []
                 then cur1 # split_objects (n1 - 1) [] ((c' # cs) @ rest)
                 else split_objects (n1 - 1) cur1 ((c' # cs) @ rest))
           else split_objects n1 cur1 ((c' # cs) @ rest))"
    using split_objects.simps(2)[of n cur c "(c' # cs) @ rest"]
    by (simp del: split_objects.simps)
  show ?case
  proof (cases "c = CHR ''{''")
    case True
    with ih pos show ?thesis
      unfolding step by (simp del: split_objects.simps add: Let_def)
  next
    case notopen: False
    with "3.prems"(2) have n: "n > 0" by auto
    show ?thesis
    proof (cases "c = CHR ''}''")
      case True
      with ih pos n notopen show ?thesis
        unfolding step by (simp del: split_objects.simps add: Let_def)
    next
      case False
      with ih pos n notopen show ?thesis
        unfolding step by (simp del: split_objects.simps add: Let_def)
    qed
  qed
qed

lemma split_objects_brace_object:
  "brace_object s \<Longrightarrow> split_objects 0 [] (s @ rest) = s # split_objects 0 [] rest"
  using split_objects_balanced[of 0 s "[]" rest]
  by (auto simp: brace_object_def split: list.splits)

lemma split_objects_brace_free:
  "brace_free s \<Longrightarrow> split_objects 0 [] (s @ rest) = split_objects 0 [] rest"
  by (induction s) (auto simp: brace_free_def Let_def)

lemma json_candidates_two_objects:
  assumes "brace_object o1" and "brace_free sep" and "brace_object o2"
  shows "json_candidates (o1 @ sep @ o2) = [o1, o2]"
proof -
  have "split_objects 0 [] (o1 @ sep @ o2) = o1 # split_objects 0 [] (sep @ o2)"
    using assms(1) by (rule split_objects_brace_object)
  also have "split_objects 0 [] (sep @ o2) = split_objects 0 [] (o2 @ [])"
    using assms(2) by (simp add: split_objects_brace_free)
  also have "\<dots> = o2 # split_objects 0 [] []"
    using assms(3) by (rule split_objects_brace_object)
  finally show ?thesis by (simp add: json_candidates_def)
qed

text \<open>
  C7. The claim: for an input whose fenced block holds two concatenated objects, the
  extractor returns a request built from the first object that decodes and has the
  key \<open>tool\<close>. On the code, the character loop counts every brace, also one inside a
  string literal. In the reply below the first object decodes and has the key, but its
  argument text is a closing brace: the loop cuts the match one character short, the
  cut text does not decode, the rest of the match is dropped, and the request is
  built from the second object, which the fourth strategy finds.
\<close>

theorem extractor_brace_in_string_counterexample:
  "demo_loads type_text_text
     = Some [(''tool'', PStr ''type_text''), (''arguments'', PDict [(''text'', PStr ''}'')])]
   \<and> re_findall True pat_json_fence brace_in_string_reply = [type_text_text @ app_close_text]
   \<and> json_candidates (type_text_text @ app_close_text) = [butlast type_text_text]
   \<and> parse_tool_call demo_loads ''id'' brace_in_string_reply
       = Some (ToolRequest_new ''id'' (PStr ''app_close'') (PDict []))
   \<and> parse_tool_call demo_loads ''id'' brace_in_string_reply
       \<noteq> Some (ToolRequest_new ''id'' (PStr ''type_text'') (PDict [(''text'', PStr ''}'')]))"
  by code_simp

text \<open>
  C7, amended. The extractor tries its strategies in the order of \<open>json_patterns\<close>
  (delimiter pair, fenced block tagged json, any fenced block, bare object) and returns
  what the first strategy that yields a request yields, without consulting a later
  one. When the first match of that strategy holds two objects whose braces balance
  character by character, one after the other (with at most brace-free text between
  them), the character loop splits the match into exactly these two by the depth of
  braces, and the request is built from the first of the two, from left to right,
  that decodes and has the key \<open>tool\<close>.
\<close>

theorem extractor_first_strategy_first_object:
  "json_patterns = [pat_python, pat_json_fence, pat_fence, pat_raw]
   \<and> (i < length json_patterns
        \<and> (\<forall>j<i. strategy loads rid content (json_patterns ! j) = None)
        \<and> strategy loads rid content (json_patterns ! i) = Some r
      \<longrightarrow> parse_tool_call loads rid content = Some r)
   \<and> (k < length json_patterns
        \<and> (\<forall>j<k. strategy loads rid content (json_patterns ! j) = None)
        \<and> re_findall True (json_patterns ! k) content = (o1 @ sep @ o2) # ms
        \<and> brace_object o1 \<and> brace_free sep \<and> brace_object o2
        \<and> first_tool_object loads [o1, o2] = Some (t, data)
      \<longrightarrow> json_candidates (o1 @ sep @ o2) = [o1, o2]
          \<and> parse_tool_call loads rid content
              = Some (ToolRequest_new rid t (dict_get data ''arguments'' (PDict []))))"
proof -
  have order: "json_patterns = [pat_python, pat_json_fence, pat_fence, pat_raw]"
    by (simp add: json_patterns_def)
  have first: "parse_tool_call loads rid content = Some r'"
    if "n < length json_patterns"
      and "\<forall>j<n. strategy loads rid content (json_patterns ! j) = None"
      and "strategy loads rid content (json_patterns ! n) = Some r'" for n r'
    using try_patterns_first_strategy[OF that] by (simp add: parse_tool_call_def)
  have split: "json_candidates (o1 @ sep @ o2) = [o1, o2]
      \<and> parse_tool_call loads rid content
          = Some (ToolRequest_new rid t (dict_get data ''arguments'' (PDict [])))"
    if k: "k < length json_patterns"
      and none: "\<forall>j<k. strategy loads rid content (json_patterns ! j) = None"
      and m: "re_findall True (json_patterns ! k) content = (o1 @ sep @ o2) # ms"
      and objs: "brace_object o1" "brace_free sep" "brace_object o2"
      and found: "first_tool_object loads [o1, o2] = Some (t, data)"
  proof -
    have cands: "json_candidates (o1 @ sep @ o2) = [o1, o2]"
      using objs by (rule json_candidates_two_objects)
    have "try_candidates loads rid [o1, o2]
            = Some (ToolRequest_new rid t (dict_get data ''arguments'' (PDict [])))"
      using found by (simp only: try_candidates_first_tool_object option.case prod.case)
    then have "strategy loads rid content (json_patterns ! k)
            = Some (ToolRequest_new rid t (dict_get data ''arguments'' (PDict [])))"
      using m cands by (simp add: strategy_def)
    from first[OF k none this] cands show ?thesis by simp
  qed
  from order first split show ?thesis by blast
qed

theorem extractor_first_strategy_first_object_witness:
  "(1::nat) < length json_patterns
   \<and> strategy demo_loads ''id'' two_objects_reply (json_patterns ! 0) = None
   \<and> re_findall True (json_patterns ! 1) two_objects_reply = [note_text @ [] @ app_open_text]
   \<and> brace_object note_text \<and> brace_free [] \<and> brace_object app_open_text
   \<and> first_tool_object demo_loads [note_text, app_open_text]
       = Some (PStr ''app_open'',
               [(''tool'', PStr ''app_open''),
                (''arguments'', PDict [(''identifier'', PStr ''notepad'')])])
   \<and> strategy demo_loads ''id'' two_objects_reply (json_patterns ! 1)
       = Some (ToolRequest_new ''id'' (PStr ''app_open'')
                 (PDict [(''identifier'', PStr ''notepad'')]))
   \<and> json_candidates (note_text @ [] @ app_open_text) = [note_text, app_open_text]
   \<and> parse_tool_call demo_loads ''id'' two_objects_reply
       = Some (ToolRequest_new ''id'' (PStr ''app_open'')
                 (PDict [(''identifier'', PStr ''notepad'')]))"
proof -
  let ?data = "[(''tool'', PStr ''app_open''),
                (''arguments'', PDict [(''identifier'', PStr ''notepad'')])]"
  let ?r = "ToolRequest_new ''id'' (PStr ''app_open'') (PDict [(''identifier'', PStr ''notepad'')])"
  have len: "(1::nat) < length json_patterns"
    by (simp add: json_patterns_def)
  have s0: "strategy demo_loads ''id'' two_objects_reply (json_patterns ! 0) = None"
    by (simp add: strategy_def reply_defs pattern_defs)
  have none: "\<forall>j<1::nat. strategy demo_loads ''id'' two_objects_reply (json_patterns ! j) = None"
    using s0 by simp
  have m: "re_findall True (json_patterns ! 1) two_objects_reply
             = (note_text @ [] @ app_open_text) # []"
    by (simp add: reply_defs pattern_defs)
  have b1: "brace_object note_text" and b2: "brace_object app_open_text"
    by (simp_all add: brace_object_def reply_defs dq_def)
  have bf: "brace_free []"
    by (simp add: brace_free_def)
  have found: "first_tool_object demo_loads [note_text, app_open_text]
                 = Some (PStr ''app_open'', ?data)"
    by (simp add: tool_object_def starts_with_brace_def py_strip_def is_space_def
        reply_defs dq_def)
  have cands: "json_candidates (note_text @ app_open_text) = [note_text, app_open_text]"
    using json_candidates_two_objects[OF b1 bf b2] by simp
  have s1: "strategy demo_loads ''id'' two_objects_reply (json_patterns ! 1) = Some ?r"
    unfolding strategy_def m
    by (simp add: cands try_candidates_first_tool_object found dict_get_def
        del: first_tool_object.simps try_candidates.simps)
  from extractor_first_strategy_first_object
         [of 1 demo_loads "''id''" two_objects_reply ?r 1 note_text "[]" app_open_text "[]"
             "PStr ''app_open''" ?data]
       len none s1 m b1 bf b2 found s0 cands
  show ?thesis by (simp add: dict_get_def)
qed

text \<open>
  C10. When the first candidate that the extractor finds to decode to an object with
  the key \<open>tool\<close> has no key \<open>arguments\<close>, the extractor succeeds and the request
  carries the empty dictionary as its arguments. So does the last resort, when no
  candidate qualifies and the text holds a \<open>tool\<close> pair but no \<open>arguments\<close> object.
\<close>

theorem extractor_needs_no_arguments:
  "(first_tool_object loads (all_candidates content) = Some (t, data)
        \<and> map_of data ''arguments'' = None
      \<longrightarrow> parse_tool_call loads rid content = Some (ToolRequest_new rid t (PDict []))
          \<and> arguments (ToolRequest_new rid t (PDict [])) = PDict [])
   \<and> (first_tool_object loads (all_candidates content') = None
        \<and> re_search False pat_tool_name content' = Some name
        \<and> re_search False pat_arguments content' = None
      \<longrightarrow> parse_tool_call loads rid content'
            = Some (ToolRequest_new rid (PStr name) (PDict [])))"
  by (simp add: parse_tool_call_def try_patterns_all_candidates
      try_candidates_first_tool_object last_resort_def dict_get_def ToolRequest_new_def)

theorem extractor_needs_no_arguments_witness:
  "first_tool_object demo_loads (all_candidates no_arguments_reply)
     = Some (PStr ''screenshot'', [(''tool'', PStr ''screenshot'')])
   \<and> map_of [(''tool'', PStr ''screenshot'')] ''arguments'' = None
   \<and> parse_tool_call demo_loads ''id'' no_arguments_reply
       = Some (ToolRequest_new ''id'' (PStr ''screenshot'') (PDict []))
   \<and> first_tool_object demo_loads (all_candidates bare_pair_reply) = None
   \<and> re_search False pat_tool_name bare_pair_reply = Some ''screenshot''
   \<and> re_search False pat_arguments bare_pair_reply = None
   \<and> parse_tool_call demo_loads ''id'' bare_pair_reply
       = Some (ToolRequest_new ''id'' (PStr ''screenshot'') (PDict []))"
proof -
  have c1: "all_candidates no_arguments_reply = [screenshot_text, screenshot_text, screenshot_text]"
    by code_simp
  have f1: "first_tool_object demo_loads (all_candidates no_arguments_reply)
              = Some (PStr ''screenshot'', [(''tool'', PStr ''screenshot'')])"
    unfolding c1
    by (simp add: tool_object_def starts_with_brace_def py_strip_def is_space_def
        reply_defs dq_def)
  have a1: "map_of [(''tool'', PStr ''screenshot'')] ''arguments'' = (None :: pyval option)"
    by simp
  have c2: "all_candidates bare_pair_reply = []"
    by code_simp
  have f2: "first_tool_object demo_loads (all_candidates bare_pair_reply) = None"
    unfolding c2 by simp
  have n2: "re_search False pat_tool_name bare_pair_reply = Some ''screenshot''"
    by (simp add: reply_defs pattern_defs)
  have g2: "re_search False pat_arguments bare_pair_reply = None"
    by (simp add: reply_defs pattern_defs)
  from extractor_needs_no_arguments
         [of demo_loads no_arguments_reply "PStr ''screenshot''"
             "[(''tool'', PStr ''screenshot'')]" "''id''" bare_pair_reply "''screenshot''"]
       f1 a1 f2 n2 g2
  show ?thesis by simp
qed

end
